theory Spec2Isabelle
  imports Complex_Main
begin

section \<open>JavaScript numbers\<close>

text \<open>
  A finite JavaScript number is an IEEE 754 binary64 value, hence a rational. The model
  keeps numbers as rationals and rounds the result of every arithmetic operation to the
  nearest value with a 53-bit significand, ties to the even significand. The exponent
  range is left unbounded: no quantity of the card generator comes near the overflow or
  the subnormal range.
\<close>

fun ilog2 :: "nat \<Rightarrow> nat" where
  "ilog2 n = (if n < 2 then 0 else Suc (ilog2 (n div 2)))"

declare ilog2.simps [simp del]

definition binexp :: "rat \<Rightarrow> int" where
  \<comment> \<open>the binary exponent \<open>e\<close> of a positive rational: \<open>2 powi e \<le> x < 2 powi (e + 1)\<close>\<close>
  "binexp x =
     (if 1 \<le> x then int (ilog2 (nat \<lfloor>x\<rfloor>))
      else - int (Suc (ilog2 (nat (\<lceil>1 / x\<rceil> - 1)))))"

definition round_half_even :: "rat \<Rightarrow> int" where
  "round_half_even q =
     (let f = \<lfloor>q\<rfloor>; r = q - of_int f
      in if r < 1 / 2 then f
         else if 1 / 2 < r then f + 1
         else if even f then f else f + 1)"

definition round64 :: "rat \<Rightarrow> rat" where
  "round64 x =
     (if x = 0 then 0
      else let a = \<bar>x\<bar>;
               u = 2 powi (binexp a - 52);
               m = round_half_even (a / u)
           in sgn x * of_int m * u)"

definition fdiv :: "rat \<Rightarrow> rat \<Rightarrow> rat" where
  \<comment> \<open>\<open>a / b\<close> on numbers, for a divisor other than zero\<close>
  "fdiv a b = round64 (a / b)"

definition fmul :: "rat \<Rightarrow> rat \<Rightarrow> rat" where
  "fmul a b = round64 (a * b)"

definition fsub :: "rat \<Rightarrow> rat \<Rightarrow> rat" where
  "fsub a b = round64 (a - b)"

definition fadd :: "rat \<Rightarrow> rat \<Rightarrow> rat" where
  "fadd a b = round64 (a + b)"

definition MAX_SAFE_INTEGER :: int where
  "MAX_SAFE_INTEGER = 9007199254740991"

subsection \<open>Number to string\<close>

text \<open>
  \<open>Number.prototype.toString\<close> renders a number by the shortest decimal digits that read back
  as the same number: integers \<open>s\<close>, \<open>k\<close> and \<open>n\<close> with \<open>10^(k - 1) \<le> s < 10^k\<close>, the number being
  the rounded \<open>s * 10^(n - k)\<close>, and \<open>k\<close> as small as possible; among several \<open>s\<close> the value
  closest to the number, the even \<open>s\<close> of two. Up to \<open>n = 21\<close> the digits are written out, from
  there in exponent notation. The search below is for a number of magnitude at least 1 (every
  use here has an integer or a number from \<open>10^21\<close>). On a safe integer the shortest digits are
  the integer's own decimal digits, which \<open>positive_toString\<close> writes directly.
\<close>

definition digit_char :: "nat \<Rightarrow> char" where
  "digit_char d = ''0123456789'' ! d"

fun digits :: "nat \<Rightarrow> string" where
  "digits n = (if n < 10 then [digit_char n] else digits (n div 10) @ [digit_char (n mod 10)])"

declare digits.simps [simp del]

definition digit_candidates :: "rat \<Rightarrow> nat \<Rightarrow> (nat \<times> int) list" where
  \<comment> \<open>the pairs \<open>(s, n)\<close> of \<open>k\<close> digits whose value rounds to the number \<open>x\<close>\<close>
  "digit_candidates x k =
     concat (map (\<lambda>n.
       concat (map (\<lambda>s.
         if 10 ^ (k - 1) \<le> s \<and> s < 10 ^ k \<and> round64 (of_nat s * 10 powi (n - int k)) = x
         then [(s, n)] else [])
         [nat \<lfloor>x / 10 powi (n - int k)\<rfloor>, nat \<lfloor>x / 10 powi (n - int k)\<rfloor> + 1]))
       [int (length (digits (nat \<lfloor>x\<rfloor>))), int (length (digits (nat \<lfloor>x\<rfloor>))) + 1])"

fun closest_candidate :: "rat \<Rightarrow> nat \<Rightarrow> nat \<times> int \<Rightarrow> (nat \<times> int) list \<Rightarrow> nat \<times> int" where
  \<comment> \<open>the candidate whose value is closest to \<open>x\<close>, the even \<open>s\<close> of two at the same distance\<close>
  "closest_candidate x k best [] = best"
| "closest_candidate x k best (c # cs) =
     (let db = \<bar>of_nat (fst best) * 10 powi (snd best - int k) - x\<bar>;
          dc = \<bar>of_nat (fst c) * 10 powi (snd c - int k) - x\<bar>
      in if dc < db \<or> (dc = db \<and> even (fst c) \<and> odd (fst best))
         then closest_candidate x k c cs
         else closest_candidate x k best cs)"

fun search_digits :: "rat \<Rightarrow> nat \<Rightarrow> nat \<Rightarrow> (nat \<times> nat \<times> int) option" where
  \<comment> \<open>the search for the least \<open>k\<close>, from \<open>k\<close> on, over as many lengths as the last argument says\<close>
  "search_digits x k 0 = None"
| "search_digits x k (Suc fuel) =
     (case digit_candidates x k of
        [] \<Rightarrow> search_digits x (Suc k) fuel
      | c # cs \<Rightarrow> (case closest_candidate x k c cs of (s, n) \<Rightarrow> Some (s, k, n)))"

definition render_digits :: "nat \<Rightarrow> nat \<Rightarrow> int \<Rightarrow> string" where
  \<comment> \<open>the digits \<open>s\<close>, \<open>k\<close> of them, with the point after the \<open>n\<close>-th\<close>
  "render_digits s k n =
     (let ds = digits s
      in if int k \<le> n \<and> n \<le> 21 then ds @ replicate (nat (n - int k)) CHR ''0''
         else if 0 < n \<and> n \<le> 21 then take (nat n) ds @ ''.'' @ drop (nat n) ds
         else if - 5 \<le> n \<and> n \<le> 0 then ''0.'' @ replicate (nat (- n)) CHR ''0'' @ ds
         else let e = n - 1;
                  sign = (if e < 0 then ''-'' else ''+'')
              in if k = 1 then ds @ ''e'' @ sign @ digits (nat \<bar>e\<bar>)
                 else take 1 ds @ ''.'' @ drop 1 ds @ ''e'' @ sign @ digits (nat \<bar>e\<bar>))"

definition positive_toString :: "rat \<Rightarrow> string" where
  \<comment> \<open>the string of a number that is a safe integer, not negative, or is at least \<open>2^53\<close>; a
     number has at most 17 shortest digits, so the search finds them\<close>
  "positive_toString x =
     (if x = of_int \<lfloor>x\<rfloor> \<and> \<lfloor>x\<rfloor> \<le> MAX_SAFE_INTEGER then digits (nat \<lfloor>x\<rfloor>)
      else case search_digits x 1 17 of
             Some (s, k, n) \<Rightarrow> render_digits s k n
           | None \<Rightarrow> digits (nat \<lfloor>x\<rfloor>))"

definition Number_toString :: "int \<Rightarrow> string" where
  \<comment> \<open>\<open>Number.prototype.toString\<close> on an integer-valued number: a minus sign before the
     string of the magnitude for a negative number\<close>
  "Number_toString n =
     (if n < 0 then CHR ''-'' # positive_toString (of_int (- n)) else positive_toString (of_int n))"

definition toFixed :: "rat \<Rightarrow> nat \<Rightarrow> string" where
  \<comment> \<open>\<open>Number.prototype.toFixed(f)\<close>: from \<open>10^21\<close> the string of the number; below, the
     integer \<open>n\<close> for which \<open>n / 10^f - x\<close> is closest to zero, the larger one of two, its
     digits padded with zeros to \<open>f + 1\<close> places, with the point before the last \<open>f\<close>\<close>
  "toFixed x0 f =
     (let s = (if x0 < 0 then ''-'' else '''');
          x = \<bar>x0\<bar>
      in if 10 ^ 21 \<le> x then s @ positive_toString x
         else
           let n = nat \<lfloor>x * 10 ^ f + 1 / 2\<rfloor>;
               m0 = digits n;
               m = (if length m0 \<le> f then replicate (f + 1 - length m0) CHR ''0'' @ m0 else m0);
               k = length m
           in if f = 0 then s @ m else s @ take (k - f) m @ ''.'' @ drop (k - f) m)"

section \<open>Profile data\<close>

text \<open>
  A count is the value of a number that holds an integer: any integer up to
  \<open>MAX_SAFE_INTEGER\<close> in magnitude, and beyond it the integers that binary64 has.
\<close>

definition formatNumber :: "int \<Rightarrow> string" where
  "formatNumber num =
     (if num \<ge> 1000000 then toFixed (fdiv (of_int num) 1000000) 1 @ ''M''
      else if num \<ge> 1000 then toFixed (fdiv (of_int num) 1000) 1 @ ''K''
      else Number_toString num)"

section \<open>JavaScript strings and values\<close>

text \<open>
  Strings are lists of characters. Only the ASCII range is modelled: a character outside it
  (the check mark of the verification label, say) is written as its UTF-8 bytes.
\<close>

fun split_on :: "char \<Rightarrow> string \<Rightarrow> string list" where
  \<comment> \<open>\<open>String.prototype.split\<close> with a separator of one character\<close>
  "split_on c [] = [[]]"
| "split_on c (x # xs) =
     (if x = c then [] # split_on c xs
      else (case split_on c xs of [] \<Rightarrow> [[x]] | w # ws \<Rightarrow> (x # w) # ws))"

fun join :: "string \<Rightarrow> string list \<Rightarrow> string" where
  \<comment> \<open>\<open>Array.prototype.join\<close>\<close>
  "join sep [] = []"
| "join sep [x] = x"
| "join sep (x # y # ys) = x @ sep @ join sep (y # ys)"

definition str_includes :: "string \<Rightarrow> char \<Rightarrow> bool" where
  "str_includes s c = (c \<in> set s)"

fun replace_all :: "char \<Rightarrow> string \<Rightarrow> string \<Rightarrow> string" where
  \<comment> \<open>\<open>String.prototype.replace\<close> with a global pattern of one character\<close>
  "replace_all c r [] = []"
| "replace_all c r (x # xs) = (if x = c then r @ replace_all c r xs else x # replace_all c r xs)"

definition upper_char :: "char \<Rightarrow> char" where
  "upper_char c =
     (case map_of (zip ''abcdefghijklmnopqrstuvwxyz'' ''ABCDEFGHIJKLMNOPQRSTUVWXYZ'') c of
        None \<Rightarrow> c | Some u \<Rightarrow> u)"

definition toUpperCase :: "string \<Rightarrow> string" where
  "toUpperCase s = map upper_char s"

datatype js_value = Str string | Bool bool | Num int

definition js_String :: "js_value \<Rightarrow> string" where
  \<comment> \<open>\<open>String(value)\<close>\<close>
  "js_String v =
     (case v of Str s \<Rightarrow> s
              | Bool b \<Rightarrow> (if b then ''true'' else ''false'')
              | Num n \<Rightarrow> Number_toString n)"

definition falsy :: "js_value \<Rightarrow> bool" where
  "falsy v = (case v of Str s \<Rightarrow> s = [] | Bool b \<Rightarrow> \<not> b | Num n \<Rightarrow> n = 0)"

definition truthy_string :: "string option \<Rightarrow> bool" where
  \<comment> \<open>truthiness of an optional string: \<open>undefined\<close> and the empty string are falsy\<close>
  "truthy_string s = (case s of None \<Rightarrow> False | Some t \<Rightarrow> t \<noteq> [])"

subsection \<open>parseInt\<close>

definition dec_digit :: "char \<Rightarrow> nat option" where
  "dec_digit c =
     map_of [(CHR ''0'', 0), (CHR ''1'', 1), (CHR ''2'', 2), (CHR ''3'', 3), (CHR ''4'', 4),
             (CHR ''5'', 5), (CHR ''6'', 6), (CHR ''7'', 7), (CHR ''8'', 8), (CHR ''9'', 9)] c"

definition hex_digit :: "char \<Rightarrow> nat option" where
  "hex_digit c =
     (case dec_digit c of
        Some d \<Rightarrow> Some d
      | None \<Rightarrow>
          map_of [(CHR ''a'', 10), (CHR ''b'', 11), (CHR ''c'', 12), (CHR ''d'', 13),
                  (CHR ''e'', 14), (CHR ''f'', 15), (CHR ''A'', 10), (CHR ''B'', 11),
                  (CHR ''C'', 12), (CHR ''D'', 13), (CHR ''E'', 14), (CHR ''F'', 15)] c)"

definition white_space :: "char \<Rightarrow> bool" where
  \<comment> \<open>tab, line feed, vertical tab, form feed, carriage return, space\<close>
  "white_space c = (c \<in> {CHR 0x09, CHR 0x0A, CHR 0x0B, CHR 0x0C, CHR 0x0D, CHR 0x20})"

fun radix_value :: "nat \<Rightarrow> (char \<Rightarrow> nat option) \<Rightarrow> nat \<Rightarrow> string \<Rightarrow> nat" where
  \<comment> \<open>the value of the longest prefix of digits, continuing from an accumulator\<close>
  "radix_value r dig acc [] = acc"
| "radix_value r dig acc (c # cs) =
     (case dig c of None \<Rightarrow> acc | Some d \<Rightarrow> radix_value r dig (acc * r + d) cs)"

definition parse_digits :: "nat \<Rightarrow> (char \<Rightarrow> nat option) \<Rightarrow> string \<Rightarrow> nat option" where
  "parse_digits r dig z =
     (case z of [] \<Rightarrow> None
      | c # cs \<Rightarrow> (if dig c = None then None else Some (radix_value r dig 0 z)))"

definition parseInt :: "string option \<Rightarrow> int option" where
  \<comment> \<open>\<open>parseInt(string)\<close> with no radix; \<open>None\<close> is \<open>NaN\<close>. An absent argument
     (\<open>undefined\<close>) has no digits. The value is exact, as it is on safe integers.\<close>
  "parseInt inp =
     (case inp of
        None \<Rightarrow> None
      | Some str \<Rightarrow>
          let s = dropWhile white_space str;
              neg = (s \<noteq> [] \<and> hd s = CHR ''-'');
              s1 = (if s \<noteq> [] \<and> (hd s = CHR ''-'' \<or> hd s = CHR ''+'') then tl s else s);
              hex = (take 2 s1 = ''0x'' \<or> take 2 s1 = ''0X'');
              v = (if hex then parse_digits 16 hex_digit (drop 2 s1)
                   else parse_digits 10 dec_digit s1)
          in map_option (\<lambda>n. if neg then - int n else int n) v)"

definition or_zero :: "int option \<Rightarrow> int" where
  \<comment> \<open>\<open>n || 0\<close> on a number: \<open>NaN\<close> and zero are falsy\<close>
  "or_zero v = (case v of None \<Rightarrow> 0 | Some n \<Rightarrow> n)"

subsection \<open>Errors and paths\<close>

datatype js_error = Error string string | NonError

definition error_message :: "js_error \<Rightarrow> string" where
  \<comment> \<open>\<open>error instanceof Error ? error.message : 'Unknown error occurred'\<close>\<close>
  "error_message e = (case e of Error nm msg \<Rightarrow> msg | NonError \<Rightarrow> ''Unknown error occurred'')"

definition error_toString :: "js_error \<Rightarrow> string" where
  \<comment> \<open>the error inside a template literal\<close>
  "error_toString e = (case e of Error nm msg \<Rightarrow> nm @ '': '' @ msg | NonError \<Rightarrow> ''undefined'')"

definition path_join :: "string list \<Rightarrow> string" where
  \<comment> \<open>\<open>path.join\<close>, without its normalisation of \<open>.\<close>, \<open>..\<close> and repeated separators:
     paths only serve as keys of the file system\<close>
  "path_join segs = join ''/'' segs"

definition path_dirname :: "string \<Rightarrow> string" where
  "path_dirname p = join ''/'' (butlast (split_on CHR ''/'' p))"

type_synonym fs = "string \<rightharpoonup> string"

definition pathExists :: "fs \<Rightarrow> string \<Rightarrow> bool" where
  "pathExists files p = (files p \<noteq> None)"

definition readFile :: "fs \<Rightarrow> string \<Rightarrow> js_error + string" where
  "readFile files p =
     (case files p of
        None \<Rightarrow> Inl (Error ''Error''
                 (''ENOENT: no such file or directory, open '' @ [CHR 0x27] @ p @ [CHR 0x27]))
      | Some content \<Rightarrow> Inr content)"

section \<open>Profile data and its tabular record\<close>

record PublicMetrics =
  followers_count :: int
  following_count :: int
  tweet_count :: int
  listed_count :: int
  like_count :: int
  media_count :: int

record Subscription =
  subscribes_to_you :: bool

record TwitterUser =
  u_id :: string
  u_name :: string
  u_username :: string
  u_description :: string
  profile_image_url :: string
  profile_banner_url :: string
  u_verified :: bool
  public_metrics :: PublicMetrics
  subscription :: Subscription
  subscription_type :: string

record TwitterProfileData =
  ident :: string
  name :: string
  username :: string
  description :: string
  profileImageUrl :: string
  profileBannerUrl :: string
  verified :: bool
  followersCount :: int
  followingCount :: int
  tweetCount :: int
  listedCount :: int
  likeCount :: int
  mediaCount :: int
  subscribesToYou :: bool
  subscriptionType :: string

definition new_TwitterProfileData :: "TwitterUser \<Rightarrow> TwitterProfileData" where
  \<comment> \<open>the constructor\<close>
  "new_TwitterProfileData user =
     \<lparr> ident = u_id user,
       name = u_name user,
       username = u_username user,
       description = u_description user,
       profileImageUrl = profile_image_url user,
       profileBannerUrl = profile_banner_url user,
       verified = u_verified user,
       followersCount = followers_count (public_metrics user),
       followingCount = following_count (public_metrics user),
       tweetCount = tweet_count (public_metrics user),
       listedCount = listed_count (public_metrics user),
       likeCount = like_count (public_metrics user),
       mediaCount = media_count (public_metrics user),
       subscribesToYou = subscribes_to_you (subscription user),
       subscriptionType = subscription_type user \<rparr>"

definition getFormattedFollowersCount :: "TwitterProfileData \<Rightarrow> string" where
  "getFormattedFollowersCount pd = formatNumber (followersCount pd)"

definition getFormattedFollowingCount :: "TwitterProfileData \<Rightarrow> string" where
  "getFormattedFollowingCount pd = formatNumber (followingCount pd)"

definition getFormattedTweetCount :: "TwitterProfileData \<Rightarrow> string" where
  "getFormattedTweetCount pd = formatNumber (tweetCount pd)"

definition toCSVRow :: "string \<Rightarrow> TwitterProfileData \<Rightarrow> (string \<times> js_value) list" where
  \<comment> \<open>the row object, its keys in insertion order; the first argument is the clock's
     \<open>new Date().toISOString()\<close>\<close>
  "toCSVRow now pd =
     [(''id'', Str (ident pd)),
      (''name'', Str (name pd)),
      (''username'', Str (username pd)),
      (''description'', Str (description pd)),
      (''verified'', Bool (verified pd)),
      (''followers_count'', Num (followersCount pd)),
      (''following_count'', Num (followingCount pd)),
      (''tweet_count'', Num (tweetCount pd)),
      (''listed_count'', Num (listedCount pd)),
      (''like_count'', Num (likeCount pd)),
      (''media_count'', Num (mediaCount pd)),
      (''subscribes_to_you'', Bool (subscribesToYou pd)),
      (''subscription_type'', Str (subscriptionType pd)),
      (''profile_image_url'', Str (profileImageUrl pd)),
      (''profile_banner_url'', Str (profileBannerUrl pd)),
      (''created_at'', Str now)]"

subsection \<open>The CSV exporter\<close>

definition escapeCSVField :: "js_value option \<Rightarrow> string" where
  \<comment> \<open>\<open>None\<close> is \<open>null\<close> or \<open>undefined\<close>\<close>
  "escapeCSVField value =
     (case value of
        None \<Rightarrow> ''''
      | Some v \<Rightarrow>
          let stringValue = js_String v
          in if str_includes stringValue CHR '','' \<or> str_includes stringValue CHR 0x0A
                \<or> str_includes stringValue CHR 0x22
             then [CHR 0x22] @ replace_all CHR 0x22 [CHR 0x22, CHR 0x22] stringValue @ [CHR 0x22]
             else stringValue)"

definition or_empty :: "js_value option \<Rightarrow> js_value" where
  \<comment> \<open>\<open>row[header] || ''\<close>\<close>
  "or_empty v = (case v of None \<Rightarrow> Str '''' | Some x \<Rightarrow> (if falsy x then Str '''' else x))"

definition createCSVContent :: "(string \<times> js_value) list list \<Rightarrow> string" where
  "createCSVContent data =
     (if length data = 0 then ''''
      else let headers = map fst (hd data);
               headerRow = join '','' (map (\<lambda>header. escapeCSVField (Some (Str header))) headers);
               dataRows = map (\<lambda>row. join '',''
                   (map (\<lambda>header. escapeCSVField (Some (or_empty (map_of row header)))) headers)) data
           in join [CHR 0x0A] (headerRow # dataRows) @ [CHR 0x0A])"

definition exportProfileData :: "string \<Rightarrow> fs \<Rightarrow> TwitterProfileData \<Rightarrow> string \<Rightarrow> string \<times> fs" where
  \<comment> \<open>returns the path of the file and the file system after the write\<close>
  "exportProfileData now files profileData userDir =
     (let csvPath = path_join [userDir, username profileData @ ''_data.csv''];
          csvData = toCSVRow now profileData;
          csvContent = createCSVContent [csvData]
      in (csvPath, files(csvPath \<mapsto> csvContent)))"

fun parseCSVLine_loop :: "string \<Rightarrow> string list \<Rightarrow> string \<Rightarrow> bool \<Rightarrow> string list" where
  \<comment> \<open>the scan of \<open>parseCSVLine\<close>: the rest of the line, the values so far, the current
     field, and whether the scan is inside quotes\<close>
  "parseCSVLine_loop [] values current inQuotes = values @ [current]"
| "parseCSVLine_loop (ch # rest) values current inQuotes =
     (if ch = CHR 0x22 then
        (if inQuotes \<and> rest \<noteq> [] \<and> hd rest = CHR 0x22
         then parseCSVLine_loop (tl rest) values (current @ [CHR 0x22]) inQuotes
         else parseCSVLine_loop rest values current (\<not> inQuotes))
      else if ch = CHR '','' \<and> \<not> inQuotes
        then parseCSVLine_loop rest (values @ [current]) [] inQuotes
      else parseCSVLine_loop rest values (current @ [ch]) inQuotes)"

definition parseCSVLine :: "string \<Rightarrow> string list" where
  "parseCSVLine line = parseCSVLine_loop line [] [] False"

subsection \<open>Assets of a card\<close>

record CardAssets =
  profileData :: TwitterProfileData
  profileImagePath :: "string option"
  bannerImagePath :: "string option"

definition column :: "string list \<Rightarrow> nat \<Rightarrow> string option" where
  \<comment> \<open>\<open>data[i]\<close>: \<open>undefined\<close> beyond the end\<close>
  "column data i = (if i < length data then Some (data ! i) else None)"

definition str_or_empty :: "string option \<Rightarrow> string" where
  \<comment> \<open>\<open>data[i] || ''\<close>\<close>
  "str_or_empty v = (case v of None \<Rightarrow> '''' | Some s \<Rightarrow> s)"

definition loadAssetsFromDirectory :: "fs \<Rightarrow> string \<Rightarrow> string \<Rightarrow> js_error + CardAssets" where
  "loadAssetsFromDirectory files usernm downloadsDir =
     (let userDir = path_join [downloadsDir, usernm];
          profileImagePath = path_join [userDir, ''profile_image.jpg''];
          bannerImagePath = path_join [userDir, ''banner_image.jpg''];
          dataPath = path_join [userDir, usernm @ ''_data.csv''];
          failed = (\<lambda>e. Inl (Error ''Error''
             (''Failed to load profile data for '' @ usernm @ '': '' @ error_toString e)))
      in case readFile files dataPath of
           Inl e \<Rightarrow> failed e
         | Inr csvContent \<Rightarrow>
             let lines = split_on CHR 0x0A csvContent;
                 headers = split_on CHR '','' (lines ! 0)
             in if length lines < 2
                then failed (Error ''TypeError''
                       (''Cannot read properties of undefined (reading '' @ [CHR 0x27] @ ''split''
                        @ [CHR 0x27] @ '')''))
                else
                  let data = split_on CHR '','' (lines ! 1);
                      mockUser =
                        \<lparr> u_id = str_or_empty (column data 0),
                          u_name = str_or_empty (column data 1),
                          u_username = str_or_empty (column data 2),
                          u_description = str_or_empty (column data 3),
                          profile_image_url = str_or_empty (column data 13),
                          profile_banner_url = str_or_empty (column data 14),
                          u_verified = (column data 4 = Some ''true''),
                          public_metrics =
                            \<lparr> followers_count = or_zero (parseInt (column data 5)),
                              following_count = or_zero (parseInt (column data 6)),
                              tweet_count = or_zero (parseInt (column data 7)),
                              listed_count = or_zero (parseInt (column data 8)),
                              like_count = or_zero (parseInt (column data 9)),
                              media_count = or_zero (parseInt (column data 10)) \<rparr>,
                          subscription = \<lparr> subscribes_to_you = (column data 11 = Some ''true'') \<rparr>,
                          subscription_type = str_or_empty (column data 12) \<rparr>;
                      assets0 =
                        \<lparr> profileData = new_TwitterProfileData mockUser,
                          profileImagePath = None,
                          bannerImagePath = None \<rparr>;
                      assets1 = (if pathExists files profileImagePath
                                 then assets0\<lparr>profileImagePath := Some profileImagePath\<rparr>
                                 else assets0);
                      assets2 = (if pathExists files bannerImagePath
                                 then assets1\<lparr>bannerImagePath := Some bannerImagePath\<rparr>
                                 else assets1)
                  in Inr assets2)"

section \<open>The canvas\<close>

text \<open>
  The canvas library is outside the repository. A canvas is modelled by its size, the drawing
  state of its context, the stack of saved states, and the list of the operations issued on
  it, oldest first; every painting operation records the drawing state it was issued in. The
  pixels are a function of that list.
\<close>

record image =
  img_width :: int
  img_height :: int
  img_data :: string

datatype style =
    Color string
  | LinearGradient rat rat rat rat "(rat \<times> string) list"

record dstate =
  fillStyle :: style
  strokeStyle :: style
  lineWidth :: rat
  font :: string
  textAlign :: string
  textBaseline :: string
  antialias :: string

datatype draw_op =
    FillRect dstate rat rat rat rat
  | DrawImage dstate image rat rat rat rat
  | FillText dstate string rat rat
  | Save
  | Restore
  | BeginPath
  | Arc rat rat rat rat rat
  | Clip
  | Stroke dstate

record canvas =
  cv_width :: int
  cv_height :: int
  state :: dstate
  stack :: "dstate list"
  ops :: "draw_op list"

definition fresh_canvas :: "int \<Rightarrow> int \<Rightarrow> canvas" where
  \<comment> \<open>a new canvas with the context's initial drawing state\<close>
  "fresh_canvas w h =
     \<lparr> cv_width = w, cv_height = h,
       state = \<lparr> fillStyle = Color ''#000000'', strokeStyle = Color ''#000000'', lineWidth = 1,
                 font = ''10px sans-serif'', textAlign = ''start'',
                 textBaseline = ''alphabetic'', antialias = ''default'' \<rparr>,
       stack = [], ops = [] \<rparr>"

definition set_fillStyle :: "style \<Rightarrow> canvas \<Rightarrow> canvas" where
  "set_fillStyle s cv = cv\<lparr>state := (state cv)\<lparr>fillStyle := s\<rparr>\<rparr>"

definition set_strokeStyle :: "style \<Rightarrow> canvas \<Rightarrow> canvas" where
  "set_strokeStyle s cv = cv\<lparr>state := (state cv)\<lparr>strokeStyle := s\<rparr>\<rparr>"

definition assign_fillStyle :: "string option \<Rightarrow> canvas \<Rightarrow> canvas" where
  \<comment> \<open>\<open>ctx.fillStyle = value\<close> for a value that is a string or \<open>undefined\<close>: the context
     ignores a value that is neither a string nor a gradient\<close>
  "assign_fillStyle v cv = (case v of None \<Rightarrow> cv | Some c \<Rightarrow> set_fillStyle (Color c) cv)"

definition assign_strokeStyle :: "string option \<Rightarrow> canvas \<Rightarrow> canvas" where
  "assign_strokeStyle v cv = (case v of None \<Rightarrow> cv | Some c \<Rightarrow> set_strokeStyle (Color c) cv)"

definition set_lineWidth :: "rat \<Rightarrow> canvas \<Rightarrow> canvas" where
  "set_lineWidth w cv = cv\<lparr>state := (state cv)\<lparr>lineWidth := w\<rparr>\<rparr>"

definition set_font :: "string \<Rightarrow> canvas \<Rightarrow> canvas" where
  "set_font f cv = cv\<lparr>state := (state cv)\<lparr>font := f\<rparr>\<rparr>"

definition set_textAlign :: "string \<Rightarrow> canvas \<Rightarrow> canvas" where
  "set_textAlign a cv = cv\<lparr>state := (state cv)\<lparr>textAlign := a\<rparr>\<rparr>"

definition set_textBaseline :: "string \<Rightarrow> canvas \<Rightarrow> canvas" where
  "set_textBaseline b cv = cv\<lparr>state := (state cv)\<lparr>textBaseline := b\<rparr>\<rparr>"

definition set_antialias :: "string \<Rightarrow> canvas \<Rightarrow> canvas" where
  "set_antialias a cv = cv\<lparr>state := (state cv)\<lparr>antialias := a\<rparr>\<rparr>"

definition issue :: "draw_op \<Rightarrow> canvas \<Rightarrow> canvas" where
  "issue op cv = cv\<lparr>ops := ops cv @ [op]\<rparr>"

definition fillRect :: "rat \<Rightarrow> rat \<Rightarrow> rat \<Rightarrow> rat \<Rightarrow> canvas \<Rightarrow> canvas" where
  "fillRect x y w h cv = issue (FillRect (state cv) x y w h) cv"

definition drawImage :: "image \<Rightarrow> rat \<Rightarrow> rat \<Rightarrow> rat \<Rightarrow> rat \<Rightarrow> canvas \<Rightarrow> canvas" where
  "drawImage img x y w h cv = issue (DrawImage (state cv) img x y w h) cv"

definition fillText :: "string \<Rightarrow> rat \<Rightarrow> rat \<Rightarrow> canvas \<Rightarrow> canvas" where
  "fillText txt x y cv = issue (FillText (state cv) txt x y) cv"

definition save :: "canvas \<Rightarrow> canvas" where
  "save cv = issue Save (cv\<lparr>stack := state cv # stack cv\<rparr>)"

definition restore :: "canvas \<Rightarrow> canvas" where
  \<comment> \<open>with no saved state, \<open>restore\<close> does nothing\<close>
  "restore cv =
     (case stack cv of [] \<Rightarrow> cv
      | s # ss \<Rightarrow> issue Restore (cv\<lparr>state := s, stack := ss\<rparr>))"

definition beginPath :: "canvas \<Rightarrow> canvas" where
  "beginPath cv = issue BeginPath cv"

definition arc :: "rat \<Rightarrow> rat \<Rightarrow> rat \<Rightarrow> rat \<Rightarrow> rat \<Rightarrow> canvas \<Rightarrow> canvas" where
  "arc x y r a0 a1 cv = issue (Arc x y r a0 a1) cv"

definition clip :: "canvas \<Rightarrow> canvas" where
  "clip cv = issue Clip cv"

definition stroke :: "canvas \<Rightarrow> canvas" where
  "stroke cv = issue (Stroke (state cv)) cv"

definition Math_PI :: rat where
  \<comment> \<open>the number \<open>Math.PI\<close>\<close>
  "Math_PI = 884279719003555 / 281474976710656"

definition Math_floor :: "rat \<Rightarrow> int" where
  "Math_floor x = \<lfloor>x\<rfloor>"

subsection \<open>The world outside\<close>

text \<open>
  What the generator reads from outside itself: the file system, the decoder behind
  \<open>loadImage\<close>, the text metrics of the canvas (by font and text), whether the canvas library
  accepts a size, its encoder behind \<open>toBuffer\<close>, the failures of the file operations (with
  the number of bytes that a failed write leaves in the file, when it has touched the file),
  the clock and the working directory. The file system holds files only: the directories that
  \<open>ensureDir\<close> creates are not part of it.
\<close>

datatype mime = image_png | image_jpeg

record world =
  files :: fs
  decodeImage :: "string \<Rightarrow> js_error + image"
  measureText :: "string \<Rightarrow> string \<Rightarrow> rat"
  createCanvasError :: "int \<Rightarrow> int \<Rightarrow> js_error option"
  encode :: "mime \<Rightarrow> canvas \<Rightarrow> js_error + string"
  ensureDirError :: "string \<Rightarrow> js_error option"
  writeFileError :: "string \<Rightarrow> js_error option"
  writeFilePartial :: "string \<Rightarrow> nat option"
  statError :: "string \<Rightarrow> js_error option"
  clock :: string
  cwd :: string

definition createCanvas :: "world \<Rightarrow> int \<Rightarrow> int \<Rightarrow> js_error + canvas" where
  "createCanvas w width height =
     (case createCanvasError w width height of
        Some e \<Rightarrow> Inl e
      | None \<Rightarrow> Inr (fresh_canvas width height))"

definition loadImage :: "world \<Rightarrow> string \<Rightarrow> js_error + image" where
  "loadImage w p =
     (case readFile (files w) p of
        Inl e \<Rightarrow> Inl e
      | Inr bytes \<Rightarrow> decodeImage w bytes)"

definition toBuffer :: "world \<Rightarrow> canvas \<Rightarrow> mime option \<Rightarrow> js_error + string" where
  \<comment> \<open>\<open>canvas.toBuffer(mimeType)\<close>: with no argument the encoding is PNG\<close>
  "toBuffer w cv mimeType =
     encode w (case mimeType of None \<Rightarrow> image_png | Some m \<Rightarrow> m) cv"

definition writeFile :: "world \<Rightarrow> string \<Rightarrow> string \<Rightarrow> js_error option \<times> fs" where
  \<comment> \<open>\<open>fs.writeFile(path, data)\<close>: the error, if there is one, and the files afterwards. A
     write that fails has either left the path alone or left the first bytes of the data
     in the file.\<close>
  "writeFile w p bytes =
     (case writeFileError w p of
        None \<Rightarrow> (None, (files w)(p \<mapsto> bytes))
      | Some e \<Rightarrow>
          (Some e, (case writeFilePartial w p of
                      None \<Rightarrow> files w
                    | Some n \<Rightarrow> (files w)(p \<mapsto> take n bytes))))"

definition stat_size :: "world \<Rightarrow> fs \<Rightarrow> string \<Rightarrow> js_error + nat" where
  \<comment> \<open>\<open>(await fs.stat(path)).size\<close> on the files as they are after the write\<close>
  "stat_size w fls p =
     (case statError w p of
        Some e \<Rightarrow> Inl e
      | None \<Rightarrow>
          (case fls p of
             None \<Rightarrow> Inl (Error ''Error''
                      (''ENOENT: no such file or directory, stat '' @ [CHR 0x27] @ p @ [CHR 0x27]))
           | Some bytes \<Rightarrow> Inr (length bytes)))"

section \<open>The profile card generator\<close>

text \<open>
  Pixel sizes and offsets that the generator computes on integers are integers of the model:
  sums and differences of safe integers are exact. Where an operand or the result has a
  fraction (the banner height, the aspect ratio, the banner's width and left edge), the
  operation is the rounded one of the numbers.
\<close>

datatype 'a property = Absent | Undefined | Value 'a

text \<open>
  A caller's options object: each property is absent, present with the value \<open>undefined\<close>, or
  present with a value. The sizes are integers of the model, so the properties \<open>width\<close> and
  \<open>height\<close> are absent or hold an integer.
\<close>

record CardGenerationOptions =
  width_opt :: "int option"
  height_opt :: "int option"
  backgroundColor_opt :: "string property"
  textColor_opt :: "string property"
  accentColor_opt :: "string property"
  fontFamily_opt :: "string property"
  showBanner_opt :: "bool property"
  showStats_opt :: "bool property"
  showDescription_opt :: "bool property"
  cardStyle_opt :: "string property"
  outputFormat_opt :: "string property"
  quality_opt :: "int property"

text \<open>
  The merged options: a property other than a size holds a value or, as \<open>None\<close>, \<open>undefined\<close>.
\<close>

record Options =
  width :: int
  height :: int
  backgroundColor :: "string option"
  textColor :: "string option"
  accentColor :: "string option"
  fontFamily :: "string option"
  showBanner :: "bool option"
  showStats :: "bool option"
  showDescription :: "bool option"
  cardStyle :: "string option"
  outputFormat :: "string option"
  quality :: "int option"

record CardInfo =
  info_width :: int
  info_height :: int
  fileSize :: nat
  format :: string

record CardGenerationResult =
  success :: bool
  outputPath :: "string option"
  cardInfo :: "CardInfo option"
  error :: "string option"

definition no_options :: CardGenerationOptions where
  \<comment> \<open>the empty options object\<close>
  "no_options =
     \<lparr> width_opt = None, height_opt = None, backgroundColor_opt = Absent, textColor_opt = Absent,
       accentColor_opt = Absent, fontFamily_opt = Absent, showBanner_opt = Absent,
       showStats_opt = Absent, showDescription_opt = Absent, cardStyle_opt = Absent,
       outputFormat_opt = Absent, quality_opt = Absent \<rparr>"

definition defaultOptions :: Options where
  "defaultOptions =
     \<lparr> width = 1200,
       height = 630,
       backgroundColor = Some ''#000000'',
       textColor = Some ''#ffffff'',
       accentColor = Some ''#1d9bf0'',
       fontFamily = Some ''Arial, sans-serif'',
       showBanner = Some True,
       showStats = Some True,
       showDescription = Some True,
       cardStyle = Some ''modern'',
       outputFormat = Some ''png'',
       quality = Some 90 \<rparr>"

definition or_default :: "'a \<Rightarrow> 'a option \<Rightarrow> 'a" where
  \<comment> \<open>a property of the spread that is absent or holds a value\<close>
  "or_default d v = (case v of None \<Rightarrow> d | Some x \<Rightarrow> x)"

definition spread :: "'a option \<Rightarrow> 'a property \<Rightarrow> 'a option" where
  \<comment> \<open>a property of the spread: a property that is present replaces the default, also
     when its value is \<open>undefined\<close>\<close>
  "spread d v = (case v of Absent \<Rightarrow> d | Undefined \<Rightarrow> None | Value x \<Rightarrow> Some x)"

definition mergeOptions :: "Options \<Rightarrow> CardGenerationOptions \<Rightarrow> Options" where
  \<comment> \<open>the object spread \<open>{ ...defaults, ...options }\<close>\<close>
  "mergeOptions d options =
     \<lparr> width = or_default (width d) (width_opt options),
       height = or_default (height d) (height_opt options),
       backgroundColor = spread (backgroundColor d) (backgroundColor_opt options),
       textColor = spread (textColor d) (textColor_opt options),
       accentColor = spread (accentColor d) (accentColor_opt options),
       fontFamily = spread (fontFamily d) (fontFamily_opt options),
       showBanner = spread (showBanner d) (showBanner_opt options),
       showStats = spread (showStats d) (showStats_opt options),
       showDescription = spread (showDescription d) (showDescription_opt options),
       cardStyle = spread (cardStyle d) (cardStyle_opt options),
       outputFormat = spread (outputFormat d) (outputFormat_opt options),
       quality = spread (quality d) (quality_opt options) \<rparr>"

definition truthy :: "bool option \<Rightarrow> bool" where
  \<comment> \<open>truthiness of a flag: \<open>undefined\<close> and \<open>false\<close> are falsy\<close>
  "truthy v = (v = Some True)"

definition template :: "string option \<Rightarrow> string" where
  \<comment> \<open>a string, or \<open>undefined\<close>, inside a template literal\<close>
  "template v = (case v of None \<Rightarrow> ''undefined'' | Some s \<Rightarrow> s)"

type_synonym warning = "string \<times> js_error"

definition number_0_4 :: rat where
  \<comment> \<open>the literal \<open>0.4\<close>\<close>
  "number_0_4 = round64 (2 / 5)"

definition bannerBand :: "Options \<Rightarrow> int" where
  \<comment> \<open>\<open>Math.floor(options.height * 0.4)\<close>\<close>
  "bannerBand options = Math_floor (fmul (of_int (height options)) number_0_4)"

definition setupCanvas :: "Options \<Rightarrow> canvas \<Rightarrow> canvas" where
  "setupCanvas options cv =
     set_textBaseline ''top'' (set_textAlign ''left'' (set_antialias ''default'' cv))"

definition drawBackground :: "Options \<Rightarrow> canvas \<Rightarrow> canvas" where
  "drawBackground options cv =
     fillRect 0 0 (of_int (width options)) (of_int (height options))
       (assign_fillStyle (backgroundColor options) cv)"

definition drawBanner :: "world \<Rightarrow> string \<Rightarrow> Options \<Rightarrow> canvas \<times> warning list
    \<Rightarrow> canvas \<times> warning list" where
  \<comment> \<open>a decoded bitmap has a height other than zero\<close>
  "drawBanner w bannerPath options st =
     (case st of (cv, warns) \<Rightarrow>
        (case loadImage w bannerPath of
           Inl e \<Rightarrow> (cv, warns @ [(''Failed to load banner image:'', e)])
         | Inr bannerImage \<Rightarrow>
             let bannerHeight = bannerBand options;
                 aspectRatio = fdiv (of_int (img_width bannerImage)) (of_int (img_height bannerImage));
                 bannerWidth = fmul (of_int bannerHeight) aspectRatio;
                 x = fdiv (fsub (of_int (width options)) bannerWidth) 2;
                 cv1 = drawImage bannerImage x 0 bannerWidth (of_int bannerHeight) cv;
                 overlay = LinearGradient 0 0 0 (of_int bannerHeight)
                             [(0, ''rgba(0, 0, 0, 0.3)''), (1, ''rgba(0, 0, 0, 0.7)'')];
                 cv2 = set_fillStyle overlay cv1;
                 cv3 = fillRect 0 0 (of_int (width options)) (of_int bannerHeight) cv2
             in (cv3, warns)))"

definition drawProfileImage :: "world \<Rightarrow> string \<Rightarrow> Options \<Rightarrow> canvas \<times> warning list
    \<Rightarrow> canvas \<times> warning list" where
  "drawProfileImage w profilePath options st =
     (case st of (cv, warns) \<Rightarrow>
        (case loadImage w profilePath of
           Inl e \<Rightarrow> (cv, warns @ [(''Failed to load profile image:'', e)])
         | Inr profileImage \<Rightarrow>
             let profileSize = (120 :: int);
                 x = (60 :: int);
                 y = (if truthy (showBanner options) then bannerBand options - profileSize div 2 else 60);
                 cv1 = save cv;
                 cv2 = beginPath cv1;
                 cv3 = arc (of_int (x + profileSize div 2)) (of_int (y + profileSize div 2))
                         (of_int (profileSize div 2)) 0 (fmul Math_PI 2) cv2;
                 cv4 = clip cv3;
                 cv5 = drawImage profileImage (of_int x) (of_int y) (of_int profileSize)
                         (of_int profileSize) cv4;
                 cv6 = restore cv5;
                 cv7 = assign_strokeStyle (backgroundColor options) cv6;
                 cv8 = set_lineWidth 4 cv7;
                 cv9 = beginPath cv8;
                 cv10 = arc (of_int (x + profileSize div 2)) (of_int (y + profileSize div 2))
                          (of_int (profileSize div 2)) 0 (fmul Math_PI 2) cv9;
                 cv11 = stroke cv10
             in (cv11, warns)))"

definition drawProfileInfo :: "TwitterProfileData \<Rightarrow> Options \<Rightarrow> canvas \<Rightarrow> canvas" where
  "drawProfileInfo pd options cv =
     (let startY = (if truthy (showBanner options) then bannerBand options + 20 else 200);
          x = (60 :: int);
          currentY = startY;
          cv1 = assign_fillStyle (textColor options) cv;
          cv2 = set_font (''bold 36px '' @ template (fontFamily options)) cv1;
          cv3 = fillText (name pd) (of_int x) (of_int currentY) cv2;
          currentY = currentY + 50;
          cv4 = set_fillStyle (Color ''#71767b'') cv3;
          cv5 = set_font (''28px '' @ template (fontFamily options)) cv4;
          cv6 = fillText (''@'' @ username pd) (of_int x) (of_int currentY) cv5;
          currentY = currentY + 40
      in if verified pd then
           let cv7 = assign_fillStyle (accentColor options) cv6;
               cv8 = set_font (''24px '' @ template (fontFamily options)) cv7
           in fillText ([CHR 0xE2, CHR 0x9C, CHR 0x93] @ '' Verified'') (of_int x) (of_int currentY) cv8
         else cv6)"

definition drawStats :: "TwitterProfileData \<Rightarrow> Options \<Rightarrow> canvas \<Rightarrow> canvas" where
  "drawStats pd options cv =
     (let startY = (if truthy (showBanner options) then bannerBand options + 200 else 400);
          x = (60 :: int);
          spacing = (120 :: int);
          currentX = x;
          cv1 = assign_fillStyle (textColor options) cv;
          cv2 = set_font (''bold 24px '' @ template (fontFamily options)) cv1;
          cv3 = fillText (getFormattedFollowersCount pd) (of_int currentX) (of_int startY) cv2;
          cv4 = set_fillStyle (Color ''#71767b'') cv3;
          cv5 = set_font (''18px '' @ template (fontFamily options)) cv4;
          cv6 = fillText ''Followers'' (of_int currentX) (of_int (startY + 30)) cv5;
          currentX = currentX + spacing;
          cv7 = assign_fillStyle (textColor options) cv6;
          cv8 = set_font (''bold 24px '' @ template (fontFamily options)) cv7;
          cv9 = fillText (getFormattedFollowingCount pd) (of_int currentX) (of_int startY) cv8;
          cv10 = set_fillStyle (Color ''#71767b'') cv9;
          cv11 = set_font (''18px '' @ template (fontFamily options)) cv10;
          cv12 = fillText ''Following'' (of_int currentX) (of_int (startY + 30)) cv11;
          currentX = currentX + spacing;
          cv13 = assign_fillStyle (textColor options) cv12;
          cv14 = set_font (''bold 24px '' @ template (fontFamily options)) cv13;
          cv15 = fillText (getFormattedTweetCount pd) (of_int currentX) (of_int startY) cv14;
          cv16 = set_fillStyle (Color ''#71767b'') cv15;
          cv17 = set_font (''18px '' @ template (fontFamily options)) cv16
      in fillText ''Tweets'' (of_int currentX) (of_int (startY + 30)) cv17)"

fun wrap_loop :: "world \<Rightarrow> int \<Rightarrow> int \<Rightarrow> string list \<Rightarrow> string \<Rightarrow> int \<Rightarrow> canvas
    \<Rightarrow> string \<times> int \<times> canvas" where
  \<comment> \<open>the loop over the words: the budget, the left edge, the words still to place, the
     current line, the vertical cursor and the canvas\<close>
  "wrap_loop w maxWidth x [] line currentY cv = (line, currentY, cv)"
| "wrap_loop w maxWidth x (word # rest) line currentY cv =
     (let testLine = line @ word @ '' '';
          metrics_width = measureText w (font (state cv)) testLine
      in if metrics_width > of_int maxWidth \<and> line \<noteq> ''''
         then wrap_loop w maxWidth x rest (word @ '' '') (currentY + 30)
                (fillText line (of_int x) (of_int currentY) cv)
         else wrap_loop w maxWidth x rest testLine currentY cv)"

definition drawDescription :: "world \<Rightarrow> string \<Rightarrow> Options \<Rightarrow> canvas \<Rightarrow> canvas" where
  "drawDescription w descr options cv =
     (let startY = (if truthy (showBanner options) then bannerBand options + 300 else 500);
          x = (60 :: int);
          maxWidth = width options - 120;
          cv1 = assign_fillStyle (textColor options) cv;
          cv2 = set_font (''20px '' @ template (fontFamily options)) cv1;
          words = split_on CHR '' '' descr
      in case wrap_loop w maxWidth x words '''' startY cv2 of
           (line, currentY, cv3) \<Rightarrow>
             if line \<noteq> '''' then fillText line (of_int x) (of_int currentY) cv3 else cv3)"

record outcome =
  result :: CardGenerationResult
  files_after :: fs
  warnings :: "warning list"
  painted :: "canvas option"

definition failed :: "js_error \<Rightarrow> fs \<Rightarrow> warning list \<Rightarrow> canvas option \<Rightarrow> outcome" where
  \<comment> \<open>the \<open>catch\<close> of \<open>generateCard\<close>\<close>
  "failed e fls warns cv =
     \<lparr> result = \<lparr> success = False, outputPath = None, cardInfo = None,
                  error = Some (error_message e) \<rparr>,
       files_after = fls, warnings = warns, painted = cv \<rparr>"

definition defaultOutputPath :: "world \<Rightarrow> CardAssets \<Rightarrow> Options \<Rightarrow> string" where
  "defaultOutputPath w assets opts =
     (let timestamp = map (\<lambda>c. if c = CHR '':'' \<or> c = CHR ''.'' then CHR ''-'' else c) (clock w);
          extension = (if outputFormat opts = Some ''jpeg'' then ''jpg'' else ''png'');
          filename = username (profileData assets) @ ''_card_'' @ timestamp @ ''.'' @ extension
      in path_join [cwd w, ''downloads'', username (profileData assets), filename])"

definition paint :: "world \<Rightarrow> CardAssets \<Rightarrow> Options \<Rightarrow> canvas \<Rightarrow> canvas \<times> warning list" where
  \<comment> \<open>the drawing steps of \<open>generateCard\<close>, from \<open>setupCanvas\<close> to the description\<close>
  "paint w assets opts canvas0 =
     (let cv1 = setupCanvas opts canvas0;
          cv2 = drawBackground opts cv1;
          st3 = (case bannerImagePath assets of
                   Some p \<Rightarrow> (if truthy (showBanner opts) \<and> p \<noteq> '''' then drawBanner w p opts (cv2, [])
                              else (cv2, []))
                 | None \<Rightarrow> (cv2, []));
          st4 = (case profileImagePath assets of
                   Some p \<Rightarrow> (if p \<noteq> '''' then drawProfileImage w p opts st3 else st3)
                 | None \<Rightarrow> st3);
          cv5 = drawProfileInfo (profileData assets) opts (fst st4);
          cv6 = (if truthy (showStats opts) then drawStats (profileData assets) opts cv5 else cv5);
          cv7 = (if truthy (showDescription opts) \<and> description (profileData assets) \<noteq> ''''
                 then drawDescription w (description (profileData assets)) opts cv6 else cv6)
      in (cv7, snd st4))"

definition upperCaseError :: js_error where
  \<comment> \<open>what \<open>opts.outputFormat.toUpperCase()\<close> throws on \<open>undefined\<close>\<close>
  "upperCaseError =
     Error ''TypeError''
       (''Cannot read properties of undefined (reading '' @ [CHR 0x27] @ ''toUpperCase'' @ [CHR 0x27] @ '')'')"

definition saveCard :: "world \<Rightarrow> CardAssets \<Rightarrow> Options \<Rightarrow> string option
    \<Rightarrow> canvas \<times> warning list \<Rightarrow> outcome" where
  \<comment> \<open>the steps of \<open>generateCard\<close> after the drawing, from the output path to the result;
     the steps after \<open>writeFile\<close> fail with the written file on the disk\<close>
  "saveCard w assets opts outputPath0 st =
     (case st of (cv, warns) \<Rightarrow>
        let outPath = (if truthy_string outputPath0 then or_default [] outputPath0
                       else defaultOutputPath w assets opts)
        in case ensureDirError w (path_dirname outPath) of
             Some e \<Rightarrow> failed e (files w) warns (Some cv)
           | None \<Rightarrow>
               (case toBuffer w cv None of
                  Inl e \<Rightarrow> failed e (files w) warns (Some cv)
                | Inr buffer \<Rightarrow>
                    (case writeFile w outPath buffer of
                       (Some e, files1) \<Rightarrow> failed e files1 warns (Some cv)
                     | (None, files1) \<Rightarrow>
                         (case stat_size w files1 outPath of
                            Inl e \<Rightarrow> failed e files1 warns (Some cv)
                          | Inr bytesize \<Rightarrow>
                              (case outputFormat opts of
                                 None \<Rightarrow> failed upperCaseError files1 warns (Some cv)
                               | Some fmt \<Rightarrow>
                                   \<lparr> result =
                                       \<lparr> success = True,
                                         outputPath = Some outPath,
                                         cardInfo = Some
                                           \<lparr> info_width = width opts,
                                             info_height = height opts,
                                             fileSize = bytesize,
                                             format = toUpperCase fmt \<rparr>,
                                         error = None \<rparr>,
                                     files_after = files1,
                                     warnings = warns,
                                     painted = Some cv \<rparr>)))))"

definition generateCard :: "world \<Rightarrow> CardAssets \<Rightarrow> CardGenerationOptions \<Rightarrow> string option
    \<Rightarrow> outcome" where
  "generateCard w assets options outputPath0 =
     (let opts = mergeOptions defaultOptions options
      in case createCanvas w (width opts) (height opts) of
           Inl e \<Rightarrow> failed e (files w) [] None
         | Inr canvas0 \<Rightarrow> saveCard w assets opts outputPath0 (paint w assets opts canvas0))"

section \<open>Reading a canvas\<close>

text \<open>
  What the theorems read off the list of operations of a canvas: the texts drawn with their
  positions, the images drawn with their rectangles, and the fills with a gradient (only the
  banner's overlay is one).
\<close>

fun text_of :: "draw_op \<Rightarrow> (string \<times> rat \<times> rat) option" where
  "text_of (FillText st txt x y) = Some (txt, x, y)"
| "text_of _ = None"

definition texts_drawn :: "draw_op list \<Rightarrow> (string \<times> rat \<times> rat) list" where
  "texts_drawn os = List.map_filter text_of os"

fun image_of :: "draw_op \<Rightarrow> (image \<times> rat \<times> rat \<times> rat \<times> rat) option" where
  "image_of (DrawImage st img x y w h) = Some (img, x, y, w, h)"
| "image_of _ = None"

definition images_drawn :: "draw_op list \<Rightarrow> (image \<times> rat \<times> rat \<times> rat \<times> rat) list" where
  "images_drawn os = List.map_filter image_of os"

fun is_gradient :: "style \<Rightarrow> bool" where
  "is_gradient (LinearGradient x0 y0 x1 y1 stops) = True"
| "is_gradient (Color c) = False"

fun gradient_fill :: "draw_op \<Rightarrow> bool" where
  "gradient_fill (FillRect st x y w h) = is_gradient (fillStyle st)"
| "gradient_fill _ = False"

definition painted_ops :: "outcome \<Rightarrow> draw_op list" where
  \<comment> \<open>the operations on the canvas of a call, none when no canvas was created\<close>
  "painted_ops out = (case painted out of None \<Rightarrow> [] | Some cv \<Rightarrow> ops cv)"

subsection \<open>The lines of the word wrap\<close>

definition spaced :: "string list \<Rightarrow> string" where
  \<comment> \<open>a line: its words, a space after each\<close>
  "spaced ws = concat (map (\<lambda>word. word @ '' '') ws)"

fun wrap_groups :: "(string \<Rightarrow> rat) \<Rightarrow> int \<Rightarrow> string list \<Rightarrow> string list \<Rightarrow> string list list" where
  \<comment> \<open>the words of each line that the loop of \<open>drawDescription\<close> draws, the last line
     included, from the words still to place and the words of the current line\<close>
  "wrap_groups m maxWidth [] g = (if g \<noteq> [] then [g] else [])"
| "wrap_groups m maxWidth (word # rest) g =
     (if m (spaced (g @ [word])) > of_int maxWidth \<and> g \<noteq> []
      then g # wrap_groups m maxWidth rest [word]
      else wrap_groups m maxWidth rest (g @ [word]))"

definition line_ops :: "dstate \<Rightarrow> int \<Rightarrow> int \<Rightarrow> string list list \<Rightarrow> draw_op list" where
  \<comment> \<open>the lines drawn one below the other, 30 pixels apart\<close>
  "line_ops st x y gs =
     map (\<lambda>i. FillText st (spaced (gs ! i)) (of_int x) (of_int (y + 30 * int i))) [0..<length gs]"

section \<open>Sample inputs\<close>

definition fixed_pitch :: "string \<Rightarrow> string \<Rightarrow> rat" where
  \<comment> \<open>text metrics of a font with glyphs 10 pixels wide\<close>
  "fixed_pitch fnt txt = 10 * of_nat (length txt)"

definition ada :: TwitterProfileData where
  "ada =
     \<lparr> ident = ''1'', name = ''Ada Lovelace'', username = ''ada'',
       description = ''Mathematician and writer.'',
       profileImageUrl = ''https://example.org/ada.jpg'',
       profileBannerUrl = ''https://example.org/banner.jpg'',
       verified = True, followersCount = 1500, followingCount = 10, tweetCount = 42,
       listedCount = 0, likeCount = 0, mediaCount = 0,
       subscribesToYou = False, subscriptionType = '''' \<rparr>"

definition sample_world :: world where
  \<comment> \<open>a world with no files, a decoder that rejects the empty file, a canvas library that
     rejects sizes that are not positive and an encoder that only names its encoding\<close>
  "sample_world =
     \<lparr> files = Map.empty,
       decodeImage = (\<lambda>bytes. if bytes = '''' then Inl (Error ''Error'' ''Unsupported image type'')
                       else Inr \<lparr> img_width = 1500, img_height = 500, img_data = bytes \<rparr>),
       measureText = fixed_pitch,
       createCanvasError = (\<lambda>w h. if w \<le> 0 \<or> h \<le> 0
                       then Some (Error ''Error'' ''Invalid canvas size'') else None),
       encode = (\<lambda>m cv. Inr (case m of image_png \<Rightarrow> ''PNG'' | image_jpeg \<Rightarrow> ''JPEG'')),
       ensureDirError = (\<lambda>p. None),
       writeFileError = (\<lambda>p. None),
       writeFilePartial = (\<lambda>p. None),
       statError = (\<lambda>p. None),
       clock = ''2024-01-02T03:04:05.678Z'',
       cwd = ''/home/user'' \<rparr>"

definition ada_assets :: CardAssets where
  "ada_assets = \<lparr> profileData = ada, profileImagePath = None, bannerImagePath = None \<rparr>"


definition avatar_world :: world where
  \<comment> \<open>the sample world with an avatar bitmap and a file that is no bitmap\<close>
  "avatar_world = sample_world\<lparr>files := [''avatar.jpg'' \<mapsto> ''bitmap'', ''broken.jpg'' \<mapsto> '''']\<rparr>"

definition avatar_assets :: CardAssets where
  \<comment> \<open>an avatar and no banner\<close>
  "avatar_assets =
     \<lparr> profileData = ada, profileImagePath = Some ''avatar.jpg'', bannerImagePath = None \<rparr>"

definition broken_banner_assets :: CardAssets where
  \<comment> \<open>an avatar and a banner file that does not decode\<close>
  "broken_banner_assets =
     \<lparr> profileData = ada, profileImagePath = Some ''avatar.jpg'',
       bannerImagePath = Some ''broken.jpg'' \<rparr>"

definition jpeg_options :: CardGenerationOptions where
  "jpeg_options = no_options\<lparr>outputFormat_opt := Value ''jpeg''\<rparr>"

definition short_record :: fs where
  \<comment> \<open>a record file of two lines whose data row has a single column\<close>
  "short_record = [''./downloads/ada/ada_data.csv'' \<mapsto> ''id,name'' @ [CHR 0x0A] @ ''7'']"

definition comma_profile :: TwitterProfileData where
  \<comment> \<open>the sample profile with a comma in its description\<close>
  "comma_profile = ada\<lparr>description := ''Mathematician, writer''\<rparr>"

subsection \<open>The resolver's contract, in the words of the specification\<close>

definition spec_record_parsable :: "string \<Rightarrow> bool" where
  \<comment> \<open>the first two lines, a header and a data row, can be parsed into the expected column
     positions: both lines are there, and the data row has each of the fifteen positions
     that the resolver reads\<close>
  "spec_record_parsable content =
     (let lines = split_on CHR 0x0A content
      in 2 \<le> length lines \<and> 15 \<le> length (split_on CHR '','' (lines ! 1)))"



definition later_world :: world where
  \<comment> \<open>the world of the avatar at another time, in another working directory\<close>
  "later_world = avatar_world\<lparr>clock := ''2025-06-07T08:09:10.111Z'', cwd := ''/tmp''\<rparr>"



definition after_call :: "world \<Rightarrow> outcome \<Rightarrow> world" where
  \<comment> \<open>the world after a call: the files are as the call left them\<close>
  "after_call w out = w\<lparr>files := files_after out\<rparr>"

definition overwritten_world :: world where
  \<comment> \<open>the world of the avatar after a render whose output path is the avatar's file\<close>
  "overwritten_world =
     after_call avatar_world (generateCard avatar_world avatar_assets no_options (Some ''avatar.jpg''))"

section \<open>Rounding error of number arithmetic\<close>

lemma ilog2_le: "0 < n \<Longrightarrow> 2 ^ ilog2 n \<le> n"
proof (induction n rule: ilog2.induct)
  case (1 n)
  show ?case
  proof (cases "n < 2")
    case True
    with "1.prems" show ?thesis by (simp add: ilog2.simps)
  next
    case False
    then have pos: "0 < n div 2" by simp
    have "2 ^ ilog2 n = 2 * 2 ^ ilog2 (n div 2)"
      using False by (subst ilog2.simps) simp
    also have "\<dots> \<le> 2 * (n div 2)"
      using "1.IH" [OF False pos] by simp
    also have "\<dots> \<le> n" by simp
    finally show ?thesis .
  qed
qed

lemma binexp_le:
  assumes "1 \<le> x"
  shows "2 powi binexp x \<le> x"
proof -
  have fl: "1 \<le> \<lfloor>x\<rfloor>" using assms by simp
  then have "0 < nat \<lfloor>x\<rfloor>" by simp
  then have "2 ^ ilog2 (nat \<lfloor>x\<rfloor>) \<le> nat \<lfloor>x\<rfloor>" by (rule ilog2_le)
  then have "rat_of_nat (2 ^ ilog2 (nat \<lfloor>x\<rfloor>)) \<le> rat_of_nat (nat \<lfloor>x\<rfloor>)"
    by (simp only: of_nat_le_iff)
  also have "rat_of_nat (nat \<lfloor>x\<rfloor>) = of_int \<lfloor>x\<rfloor>" using fl by simp
  also have "\<dots> \<le> x" by simp
  finally show ?thesis using assms by (simp add: binexp_def)
qed

lemma round_half_even_err: "\<bar>of_int (round_half_even q) - q\<bar> \<le> 1 / 2"
proof -
  have "of_int \<lfloor>q\<rfloor> \<le> q" "q < of_int \<lfloor>q\<rfloor> + 1" by linarith+
  then show ?thesis
    unfolding round_half_even_def Let_def by (auto simp: abs_le_iff)
qed

lemma round64_err:
  assumes "1 \<le> x"
  shows "\<bar>round64 x - x\<bar> \<le> x / 2 ^ 53"
proof -
  define u :: rat where "u = 2 powi (binexp x - 52)"
  define m where "m = round_half_even (x / u)"
  have upos: "0 < u" by (simp add: u_def)
  have xpos: "0 < x" using assms by simp
  have r: "round64 x = of_int m * u"
    using xpos by (simp add: round64_def Let_def u_def m_def)
  have "\<bar>of_int m - x / u\<bar> \<le> 1 / 2" unfolding m_def by (rule round_half_even_err)
  then have "\<bar>of_int m - x / u\<bar> * u \<le> 1 / 2 * u"
    using upos by (simp only: mult_le_cancel_right_pos)
  moreover have "\<bar>of_int m - x / u\<bar> * u = \<bar>of_int m * u - x\<bar>"
  proof -
    have "\<bar>of_int m - x / u\<bar> * u = \<bar>(of_int m - x / u) * u\<bar>"
      using upos by (simp add: abs_mult)
    also have "(of_int m - x / u) * u = of_int m * u - x"
      using upos by (simp add: field_simps)
    finally show ?thesis .
  qed
  ultimately have e1: "\<bar>round64 x - x\<bar> \<le> u / 2" by (simp add: r)
  have "u = 2 powi binexp x / 2 ^ 52"
    unfolding u_def by (simp add: power_int_diff)
  then have "u / 2 = 2 powi binexp x / 2 ^ 53" by simp
  also have "\<dots> \<le> x / 2 ^ 53"
    using binexp_le [OF assms] by (simp add: divide_right_mono)
  finally show ?thesis using e1 by linarith
qed

lemma nearest_tenth:
  fixes c k :: int and y :: rat
  assumes k: "0 < k"
    and close: "\<bar>y - of_int c / of_int (2 * k)\<bar> < 1 / of_int (2 * k)"
  shows "\<bar>rat_of_int \<lfloor>y + 1 / 2\<rfloor> - of_int c / of_int (2 * k)\<bar> \<le> 1 / 2"
proof -
  define n where "n = \<lfloor>y + 1 / 2\<rfloor>"
  define D :: rat where "D = of_int (2 * k)"
  have D: "0 < D" using k by (simp add: D_def)
  have n1: "of_int n \<le> y + 1 / 2" and n2: "y + 1 / 2 < of_int n + 1"
    unfolding n_def by linarith+
  from close have c1: "of_int c / D < y + 1 / D" and c2: "y - 1 / D < of_int c / D"
    unfolding D_def [symmetric] by (simp_all add: abs_less_iff)
  have "of_int c / D < (of_int n + 1 / 2) + 1 / D"
    using c1 n2 by linarith
  then have "of_int c < ((of_int n + 1 / 2) + 1 / D) * D"
    using D by (simp only: pos_divide_less_eq)
  also have "((of_int n + 1 / 2) + 1 / D) * D = of_int n * D + D / 2 + 1"
    using D by (simp add: algebra_simps)
  also have "\<dots> = rat_of_int (2 * k * n + k + 1)"
    by (simp add: D_def algebra_simps)
  finally have "c < 2 * k * n + k + 1" by (simp only: of_int_less_iff)
  then have up: "c \<le> 2 * k * n + k" by simp
  have "(of_int n - 1 / 2) - 1 / D < of_int c / D"
    using c2 n1 by linarith
  then have "((of_int n - 1 / 2) - 1 / D) * D < of_int c"
    using D by (simp only: pos_less_divide_eq)
  moreover have "((of_int n - 1 / 2) - 1 / D) * D = of_int n * D - D / 2 - 1"
    using D by (simp add: algebra_simps)
  moreover have "of_int n * D - D / 2 - 1 = rat_of_int (2 * k * n - k - 1)"
    by (simp add: D_def algebra_simps)
  ultimately have "rat_of_int (2 * k * n - k - 1) < rat_of_int c" by simp
  then have "2 * k * n - k - 1 < c" by (simp only: of_int_less_iff)
  then have lo: "2 * k * n - k \<le> c" by simp
  have "rat_of_int c \<le> rat_of_int (2 * k * n + k)" using up by (simp only: of_int_le_iff)
  also have "rat_of_int (2 * k * n + k) = (of_int n + 1 / 2) * D"
    by (simp add: D_def algebra_simps)
  finally have a: "of_int c / D \<le> of_int n + 1 / 2"
    using D by (simp only: pos_divide_le_eq)
  have "rat_of_int (2 * k * n - k) \<le> rat_of_int c" using lo by (simp only: of_int_le_iff)
  moreover have "rat_of_int (2 * k * n - k) = (of_int n - 1 / 2) * D"
    by (simp add: D_def algebra_simps)
  ultimately have "(of_int n - 1 / 2) * D \<le> of_int c" by simp
  then have b: "of_int n - 1 / 2 \<le> of_int c / D"
    using D by (simp only: pos_le_divide_eq)
  have "\<bar>rat_of_int n - of_int c / D\<bar> \<le> 1 / 2" using a b by linarith
  then show ?thesis by (simp only: n_def D_def)
qed


lemma digits_small: "n < 10 \<Longrightarrow> digits n = [digit_char n]"
  by (simp add: digits.simps)

lemma digits_step: "10 \<le> n \<Longrightarrow> digits n = digits (n div 10) @ [digit_char (n mod 10)]"
  by (subst digits.simps) simp

lemma digits_not_Nil: "digits n \<noteq> []"
  by (subst digits.simps) simp

lemma toFixed_one:
  assumes "0 \<le> x" and "x < 10 ^ 21"
  shows "toFixed x 1 =
    digits (nat \<lfloor>x * 10 + 1 / 2\<rfloor> div 10) @ ''.'' @ [digit_char (nat \<lfloor>x * 10 + 1 / 2\<rfloor> mod 10)]"
proof -
  define n where "n = nat \<lfloor>x * 10 + 1 / 2\<rfloor>"
  have neg: "\<not> x < 0" and ab: "\<bar>x\<bar> = x" and small: "\<not> 10 ^ 21 \<le> x"
    using assms by simp_all
  have tf: "toFixed x 1 =
    (let m0 = digits n;
         m = (if length m0 \<le> 1 then replicate (2 - length m0) CHR ''0'' @ m0 else m0)
     in take (length m - 1) m @ ''.'' @ drop (length m - 1) m)"
    using neg small unfolding toFixed_def Let_def ab n_def by simp
  have "toFixed x 1 = digits (n div 10) @ ''.'' @ [digit_char (n mod 10)]"
  proof (cases "n < 10")
    case True
    then have "digits n = [digit_char n]" "n div 10 = 0" "n mod 10 = n"
      by (simp_all add: digits_small)
    then show ?thesis
      unfolding tf by (simp add: digits_small digit_char_def)
  next
    case False
    then have d: "digits n = digits (n div 10) @ [digit_char (n mod 10)]"
      by (simp add: digits_step)
    have "length (digits (n div 10)) \<noteq> 0" using digits_not_Nil by simp
    then show ?thesis
      unfolding tf by (simp add: d)
  qed
  then show ?thesis by (simp only: n_def)
qed

lemma tenth_near:
  assumes "0 \<le> d"
  shows "\<bar>rat_of_nat (nat \<lfloor>d * 10 + 1 / 2\<rfloor>) / 10 - d\<bar> \<le> 1 / 20"
proof -
  define r where "r = rat_of_int \<lfloor>d * 10 + 1 / 2\<rfloor>"
  have "0 \<le> \<lfloor>d * 10 + 1 / 2\<rfloor>" using assms by simp
  then have r: "rat_of_nat (nat \<lfloor>d * 10 + 1 / 2\<rfloor>) = r" by (simp add: r_def)
  have "r \<le> d * 10 + 1 / 2" and "d * 10 + 1 / 2 < r + 1" unfolding r_def by linarith+
  then have "\<bar>r / 10 - d\<bar> \<le> 1 / 20" by linarith
  then show ?thesis by (simp only: r)
qed

lemma round64_nonneg:
  assumes "1 \<le> x"
  shows "0 \<le> round64 x"
proof -
  define e where "e = x / 2 ^ 53"
  have "\<bar>round64 x - x\<bar> \<le> e" unfolding e_def using assms by (rule round64_err)
  then have "x - e \<le> round64 x" by linarith
  moreover have "e \<le> x" unfolding e_def using assms by (simp add: field_simps)
  ultimately show ?thesis by linarith
qed

lemma round64_double:
  assumes "1 \<le> x"
  shows "round64 x \<le> 2 * x"
proof -
  define e where "e = x / 2 ^ 53"
  have "\<bar>round64 x - x\<bar> \<le> e" unfolding e_def using assms by (rule round64_err)
  then have "round64 x \<le> x + e" by linarith
  moreover have "e \<le> x" unfolding e_def using assms by (simp add: field_simps)
  ultimately show ?thesis by linarith
qed
lemma scaled_nearest:
  fixes c k :: int
  assumes k: "0 < k" and lo: "20 * k \<le> c" and hi: "c \<le> MAX_SAFE_INTEGER"
  shows "\<bar>rat_of_nat (nat \<lfloor>fdiv (of_int c) (of_int (20 * k)) * 10 + 1 / 2\<rfloor>) / 10
           - of_int c / of_int (20 * k)\<bar> \<le> 1 / 20"
proof -
  define x :: rat where "x = of_int c / of_int (20 * k)"
  define d where "d = round64 x"
  have kq: "(0::rat) < of_int k" using k by simp
  have x1: "1 \<le> x"
  proof -
    have "rat_of_int (20 * k) \<le> of_int c" using lo by (simp only: of_int_le_iff)
    then show ?thesis using kq by (simp add: x_def field_simps)
  qed
  have err: "\<bar>d - x\<bar> \<le> x / 2 ^ 53" unfolding d_def using x1 by (rule round64_err)
  have d0: "0 \<le> d" unfolding d_def using x1 by (rule round64_nonneg)
  have x10: "x * 10 = of_int c / of_int (2 * k)" using kq by (simp add: x_def)
  have "rat_of_int c < 2 ^ 53"
  proof -
    have "c < 2 ^ 53" using hi by (simp add: MAX_SAFE_INTEGER_def)
    then have "rat_of_int c < rat_of_int (2 ^ 53)" by (simp only: of_int_less_iff)
    then show ?thesis by simp
  qed
  then have "rat_of_int c / 2 ^ 53 < 1" by simp
  then have "rat_of_int c / 2 ^ 53 / of_int (2 * k) < 1 / of_int (2 * k)"
    using kq by (intro divide_strict_right_mono) simp_all
  moreover have "x * 10 / 2 ^ 53 = rat_of_int c / 2 ^ 53 / of_int (2 * k)"
    by (simp add: x10)
  ultimately have small: "x * 10 / 2 ^ 53 < 1 / of_int (2 * k)" by simp
  have "\<bar>d * 10 - x * 10\<bar> = \<bar>d - x\<bar> * 10" by (simp add: abs_if)
  also have "\<dots> \<le> x / 2 ^ 53 * 10" using err by simp
  finally have "\<bar>d * 10 - x * 10\<bar> < 1 / of_int (2 * k)" using small by simp
  then have "\<bar>d * 10 - of_int c / of_int (2 * k)\<bar> < 1 / of_int (2 * k)"
    by (simp only: x10)
  from nearest_tenth [OF k this]
  have near: "\<bar>rat_of_int \<lfloor>d * 10 + 1 / 2\<rfloor> - x * 10\<bar> \<le> 1 / 2" by (simp only: x10)
  have "0 \<le> \<lfloor>d * 10 + 1 / 2\<rfloor>" using d0 by simp
  then have "rat_of_nat (nat \<lfloor>d * 10 + 1 / 2\<rfloor>) = rat_of_int \<lfloor>d * 10 + 1 / 2\<rfloor>"
    by simp
  moreover define r where "r = rat_of_int \<lfloor>d * 10 + 1 / 2\<rfloor>"
  ultimately have r: "rat_of_nat (nat \<lfloor>d * 10 + 1 / 2\<rfloor>) = r" by simp
  have "\<bar>r - x * 10\<bar> \<le> 1 / 2" using near by (simp only: r_def)
  then have "\<bar>r / 10 - x\<bar> \<le> 1 / 20" by linarith
  then have "\<bar>rat_of_nat (nat \<lfloor>d * 10 + 1 / 2\<rfloor>) / 10 - x\<bar> \<le> 1 / 20"
    by (simp only: r)
  then show ?thesis by (simp only: d_def x_def fdiv_def)
qed

lemma scaled_nonneg:
  fixes c k :: int
  assumes k: "0 < k" and lo: "20 * k \<le> c"
  shows "0 \<le> fdiv (of_int c) (of_int (20 * k))"
proof -
  have kq: "(0::rat) < of_int k" using k by simp
  have "rat_of_int (20 * k) \<le> of_int c" using lo by (simp only: of_int_le_iff)
  then have "1 \<le> rat_of_int c / of_int (20 * k)" using kq by (simp add: field_simps)
  then show ?thesis unfolding fdiv_def by (rule round64_nonneg)
qed

lemma scaled_small:
  fixes c k :: int
  assumes k: "0 < k" and lo: "20 * k \<le> c" and hi: "c \<le> MAX_SAFE_INTEGER"
  shows "fdiv (of_int c) (of_int (20 * k)) < 10 ^ 21"
proof -
  define x :: rat where "x = of_int c / of_int (20 * k)"
  have kq: "(0::rat) < of_int k" using k by simp
  have "rat_of_int (20 * k) \<le> of_int c" using lo by (simp only: of_int_le_iff)
  then have x1: "1 \<le> x" using kq by (simp add: x_def field_simps)
  have "rat_of_int c \<le> rat_of_int MAX_SAFE_INTEGER" using hi by (simp only: of_int_le_iff)
  then have c: "rat_of_int c \<le> 9007199254740991" by (simp add: MAX_SAFE_INTEGER_def)
  have "rat_of_int 1 \<le> rat_of_int k" using k by simp
  then have "x \<le> rat_of_int c / 20"
    using kq x1 unfolding x_def by (simp add: field_simps)
  with c have "2 * x < 10 ^ 21" by simp
  with round64_double [OF x1] show ?thesis by (simp add: fdiv_def x_def)
qed

lemma formatNumber_K:
  assumes "1000 \<le> c" "c < 1000000"
  shows "\<exists>n. formatNumber c = digits (n div 10) @ ''.'' @ [digit_char (n mod 10)] @ ''K''
       \<and> \<bar>rat_of_nat n / 10 - of_int c / 1000\<bar> \<le> 1 / 20"
proof -
  have hi: "c \<le> MAX_SAFE_INTEGER" using assms by (simp add: MAX_SAFE_INTEGER_def)
  have lo: "20 * 50 \<le> c" using assms by simp
  have nn: "0 \<le> fdiv (of_int c) 1000"
    using scaled_nonneg [of 50 c] lo by simp
  have sm: "fdiv (of_int c) 1000 < 10 ^ 21"
    using scaled_small [of 50 c] lo hi by simp
  have "formatNumber c = toFixed (fdiv (of_int c) 1000) 1 @ ''K''"
    using assms by (simp add: formatNumber_def)
  then have "formatNumber c = digits (nat \<lfloor>fdiv (of_int c) 1000 * 10 + 1 / 2\<rfloor> div 10) @ ''.'' @
      [digit_char (nat \<lfloor>fdiv (of_int c) 1000 * 10 + 1 / 2\<rfloor> mod 10)] @ ''K''"
    by (simp only: toFixed_one [OF nn sm] append_assoc)
  moreover have "\<bar>rat_of_nat (nat \<lfloor>fdiv (of_int c) 1000 * 10 + 1 / 2\<rfloor>) / 10 - of_int c / 1000\<bar> \<le> 1 / 20"
    using scaled_nearest [of 50 c] lo hi by simp
  ultimately show ?thesis by blast
qed

lemma formatNumber_M:
  assumes "1000000 \<le> c" and "fdiv (of_int c) 1000000 < 10 ^ 21"
  shows "\<exists>n. formatNumber c = digits (n div 10) @ ''.'' @ [digit_char (n mod 10)] @ ''M''
       \<and> \<bar>rat_of_nat n / 10 - fdiv (of_int c) 1000000\<bar> \<le> 1 / 20
       \<and> (c \<le> MAX_SAFE_INTEGER \<longrightarrow> \<bar>rat_of_nat n / 10 - of_int c / 1000000\<bar> \<le> 1 / 20)"
proof -
  have lo: "20 * 50000 \<le> c" using assms by simp
  have nn: "0 \<le> fdiv (of_int c) 1000000"
    using scaled_nonneg [of 50000 c] lo by simp
  have "formatNumber c = toFixed (fdiv (of_int c) 1000000) 1 @ ''M''"
    using assms by (simp add: formatNumber_def)
  then have "formatNumber c = digits (nat \<lfloor>fdiv (of_int c) 1000000 * 10 + 1 / 2\<rfloor> div 10) @ ''.'' @
      [digit_char (nat \<lfloor>fdiv (of_int c) 1000000 * 10 + 1 / 2\<rfloor> mod 10)] @ ''M''"
    by (simp only: toFixed_one [OF nn assms(2)] append_assoc)
  moreover have "\<bar>rat_of_nat (nat \<lfloor>fdiv (of_int c) 1000000 * 10 + 1 / 2\<rfloor>) / 10
      - fdiv (of_int c) 1000000\<bar> \<le> 1 / 20"
    using nn by (rule tenth_near)
  moreover have "c \<le> MAX_SAFE_INTEGER \<longrightarrow>
      \<bar>rat_of_nat (nat \<lfloor>fdiv (of_int c) 1000000 * 10 + 1 / 2\<rfloor>) / 10 - of_int c / 1000000\<bar> \<le> 1 / 20"
    using scaled_nearest [of 50000 c] lo by simp
  ultimately show ?thesis by blast
qed

lemma formatNumber_safe_quotient:
  assumes "1000000 \<le> c" and "c \<le> MAX_SAFE_INTEGER"
  shows "fdiv (of_int c) 1000000 < 10 ^ 21"
  using scaled_small [of 50000 c] assms by simp

lemma positive_toString_safe:
  assumes "0 \<le> m" and "m \<le> MAX_SAFE_INTEGER"
  shows "positive_toString (of_int m) = digits (nat m)"
  using assms by (simp add: positive_toString_def)

subsection \<open>The characters of a number's string\<close>

lemma digit_char_in: "d < 10 \<Longrightarrow> digit_char d \<in> set ''0123456789''"
proof -
  assume "d < 10"
  then have "d \<in> {0, 1, 2, 3, 4, 5, 6, 7, 8, 9}" by auto
  then show ?thesis by (auto simp: digit_char_def)
qed

lemma digits_chars: "set (digits n) \<subseteq> set ''0123456789''"
proof (induction n rule: digits.induct)
  case (1 n)
  show ?case
  proof (cases "n < 10")
    case True
    then show ?thesis using digit_char_in [of n] by (simp add: digits_small)
  next
    case False
    have "n mod 10 < 10" by simp
    then have "digit_char (n mod 10) \<in> set ''0123456789''" by (rule digit_char_in)
    with "1.IH" [OF False] False show ?thesis by (simp add: digits_step)
  qed
qed

lemma render_digits_chars: "set (render_digits s k n) \<subseteq> set ''0123456789.e+-''"
proof -
  have d: "\<And>m. set (digits m) \<subseteq> set ''0123456789.e+-''"
    using digits_chars by fastforce
  have t: "\<And>j m. set (take j (digits m)) \<subseteq> set ''0123456789.e+-''"
    using d set_take_subset by fast
  have r: "\<And>j m. set (drop j (digits m)) \<subseteq> set ''0123456789.e+-''"
    using d set_drop_subset by fast
  show ?thesis
    unfolding render_digits_def Let_def
    using d [of s] d [of "nat \<bar>n - 1\<bar>"] t [of "nat n" s] t [of 1 s] r [of "nat n" s] r [of 1 s]
    by (auto split: if_splits)
qed

lemma render_digits_not_Nil: "render_digits s k n \<noteq> []"
  unfolding render_digits_def Let_def using digits_not_Nil [of s]
  by (auto split: if_splits)

lemma positive_toString_chars:
  "set (positive_toString x) \<subseteq> set ''0123456789.e+-''" "positive_toString x \<noteq> []"
proof -
  have d: "\<And>m. set (digits m) \<subseteq> set ''0123456789.e+-''"
    using digits_chars by fastforce
  show "set (positive_toString x) \<subseteq> set ''0123456789.e+-''"
    unfolding positive_toString_def
    using d render_digits_chars by (auto split: option.splits)
  show "positive_toString x \<noteq> []"
    unfolding positive_toString_def
    using digits_not_Nil render_digits_not_Nil by (auto split: option.splits)
qed

lemma positive_toString_last:
  "last (positive_toString x) \<noteq> CHR ''K''" "last (positive_toString x) \<noteq> CHR ''M''"
proof -
  have "last (positive_toString x) \<in> set (positive_toString x)"
    using positive_toString_chars(2) by (rule last_in_set)
  then have "last (positive_toString x) \<in> set ''0123456789.e+-''"
    using positive_toString_chars(1) by blast
  then show "last (positive_toString x) \<noteq> CHR ''K''" and "last (positive_toString x) \<noteq> CHR ''M''"
    by auto
qed

subsection \<open>Evaluating numbers\<close>

lemma ilog2_small: "n < 2 \<Longrightarrow> ilog2 n = 0"
  by (simp add: ilog2.simps)

lemma ilog2_step: "2 \<le> n \<Longrightarrow> ilog2 n = 1 + ilog2 (n div 2)"
  by (subst ilog2.simps) simp

lemma floor_rat_numeral:
  "\<lfloor>numeral a / numeral b :: rat\<rfloor> = numeral a div numeral b"
  by (metis floor_divide_of_int_eq of_int_numeral)

lemma search_digits_step:
  "0 < fuel \<Longrightarrow> search_digits x k fuel =
     (case digit_candidates x k of
        [] \<Rightarrow> search_digits x (Suc k) (fuel - 1)
      | c # cs \<Rightarrow> (case closest_candidate x k c cs of (s, n) \<Rightarrow> Some (s, k, n)))"
  by (cases fuel) (simp_all split: list.splits)

lemmas number_eval =
  formatNumber_def fdiv_def toFixed_def round64_def binexp_def round_half_even_def Let_def
  ilog2_small ilog2_step digits_small digits_step digit_char_def floor_rat_numeral
  Number_toString_def positive_toString_def search_digits_step digit_candidates_def
  render_digits_def MAX_SAFE_INTEGER_def

section \<open>The count formatter\<close>

text \<open>
  C5 (as amended): for a non-negative integer count \<open>c\<close>, the formatter returns the decimal digits
  of \<open>c\<close> below 1000; from 1000 and below 1000000 it returns \<open>c / 1000\<close> to one decimal place (an
  integer part, a point, one digit; the value a nearest tenth of \<open>c / 1000\<close>) followed by K; from
  1000000, as long as the quotient \<open>c / 1000000\<close> that the number arithmetic gives is below
  \<open>10^21\<close>, it returns that quotient to one decimal place followed by M, which is a nearest tenth
  of \<open>c / 1000000\<close> itself for a safe integer \<open>c\<close>; every safe integer has such a quotient. So 999
  gives "999", 1200 gives "1.2K", 2500000 gives "2.5M" and 1000 gives "1.0K". From a quotient
  of \<open>10^21\<close> the result is in exponent notation, with no decimal place.
\<close>

theorem formatNumber_nonneg:
  assumes "0 \<le> c"
  shows "(c < 1000 \<longrightarrow> formatNumber c = digits (nat c)) \<and>
    (1000 \<le> c \<and> c < 1000000 \<longrightarrow>
      (\<exists>n. formatNumber c = digits (n div 10) @ ''.'' @ [digit_char (n mod 10)] @ ''K''
         \<and> \<bar>rat_of_nat n / 10 - of_int c / 1000\<bar> \<le> 1 / 20)) \<and>
    (1000000 \<le> c \<and> fdiv (of_int c) 1000000 < 10 ^ 21 \<longrightarrow>
      (\<exists>n. formatNumber c = digits (n div 10) @ ''.'' @ [digit_char (n mod 10)] @ ''M''
         \<and> \<bar>rat_of_nat n / 10 - fdiv (of_int c) 1000000\<bar> \<le> 1 / 20
         \<and> (c \<le> MAX_SAFE_INTEGER \<longrightarrow> \<bar>rat_of_nat n / 10 - of_int c / 1000000\<bar> \<le> 1 / 20))) \<and>
    (1000000 \<le> c \<and> c \<le> MAX_SAFE_INTEGER \<longrightarrow> fdiv (of_int c) 1000000 < 10 ^ 21) \<and>
    formatNumber 999 = ''999'' \<and> formatNumber 1200 = ''1.2K'' \<and>
    formatNumber 2500000 = ''2.5M'' \<and> formatNumber 1000 = ''1.0K''"
proof -
  have plain: "c < 1000 \<longrightarrow> formatNumber c = digits (nat c)"
  proof
    assume "c < 1000"
    then have "c \<le> MAX_SAFE_INTEGER" by (simp add: MAX_SAFE_INTEGER_def)
    with assms \<open>c < 1000\<close> show "formatNumber c = digits (nat c)"
      by (simp add: formatNumber_def Number_toString_def positive_toString_safe)
  qed
  have k: "1000 \<le> c \<and> c < 1000000 \<longrightarrow>
      (\<exists>n. formatNumber c = digits (n div 10) @ ''.'' @ [digit_char (n mod 10)] @ ''K''
         \<and> \<bar>rat_of_nat n / 10 - of_int c / 1000\<bar> \<le> 1 / 20)"
    using formatNumber_K by blast
  have m: "1000000 \<le> c \<and> fdiv (of_int c) 1000000 < 10 ^ 21 \<longrightarrow>
      (\<exists>n. formatNumber c = digits (n div 10) @ ''.'' @ [digit_char (n mod 10)] @ ''M''
         \<and> \<bar>rat_of_nat n / 10 - fdiv (of_int c) 1000000\<bar> \<le> 1 / 20
         \<and> (c \<le> MAX_SAFE_INTEGER \<longrightarrow> \<bar>rat_of_nat n / 10 - of_int c / 1000000\<bar> \<le> 1 / 20))"
    using formatNumber_M by blast
  have q: "1000000 \<le> c \<and> c \<le> MAX_SAFE_INTEGER \<longrightarrow> fdiv (of_int c) 1000000 < 10 ^ 21"
    using formatNumber_safe_quotient by blast
  have e1: "formatNumber 999 = ''999''" by (simp add: number_eval)
  have e2: "formatNumber 1200 = ''1.2K''" by (simp add: number_eval)
  have e3: "formatNumber 2500000 = ''2.5M''" by (simp add: number_eval)
  have e4: "formatNumber 1000 = ''1.0K''" by (simp add: number_eval)
  show ?thesis using plain k m q e1 e2 e3 e4 by (intro conjI)
qed

theorem formatNumber_nonneg_witness:
  "(0::int) \<le> 1200
   \<and> (\<exists>n. formatNumber 1200 = digits (n div 10) @ ''.'' @ [digit_char (n mod 10)] @ ''K''
        \<and> \<bar>rat_of_nat n / 10 - of_int 1200 / 1000\<bar> \<le> 1 / 20)
   \<and> (0::int) \<le> 2500000 \<and> 2500000 \<le> MAX_SAFE_INTEGER
   \<and> fdiv (of_int 2500000) 1000000 < 10 ^ 21
   \<and> (\<exists>n. formatNumber 2500000 = digits (n div 10) @ ''.'' @ [digit_char (n mod 10)] @ ''M''
        \<and> \<bar>rat_of_nat n / 10 - of_int 2500000 / 1000000\<bar> \<le> 1 / 20)"
proof -
  have h: "(0::int) \<le> 1200" by simp
  have r: "(1000::int) \<le> 1200 \<and> (1200::int) < 1000000" by simp
  from formatNumber_nonneg [OF h] r
  have a: "\<exists>n. formatNumber 1200 = digits (n div 10) @ ''.'' @ [digit_char (n mod 10)] @ ''K''
        \<and> \<bar>rat_of_nat n / 10 - of_int 1200 / 1000\<bar> \<le> 1 / 20"
    by blast
  have h': "(0::int) \<le> 2500000" by simp
  have s: "(2500000::int) \<le> MAX_SAFE_INTEGER" by (simp add: MAX_SAFE_INTEGER_def)
  have r': "(1000000::int) \<le> 2500000" by simp
  from formatNumber_nonneg [OF h'] r' s
  have q: "fdiv (of_int 2500000) 1000000 < 10 ^ 21" by blast
  from formatNumber_nonneg [OF h'] r' s q
  have b: "\<exists>n. formatNumber 2500000 = digits (n div 10) @ ''.'' @ [digit_char (n mod 10)] @ ''M''
        \<and> \<bar>rat_of_nat n / 10 - of_int 2500000 / 1000000\<bar> \<le> 1 / 20"
    by blast
  show ?thesis
    by (rule conjI [OF h conjI [OF a conjI [OF h' conjI [OF s conjI [OF q b]]]]])
qed

theorem formatNumber_exponent_counterexample:
  "(0::int) \<le> 1000000000000000013287555072
   \<and> formatNumber 1000000000000000013287555072 = ''1e+21M''"
  by (simp add: number_eval)

text \<open>
  C10 (as amended): for a negative integer count \<open>n\<close>, the formatter returns the string of the
  number, a minus sign before the string of its magnitude, and never a form that ends in K or
  M: both scaled branches need a count of at least 1000. For a safe integer the string is the
  plain decimal string of \<open>n\<close>, a minus sign and the digits of \<open>- n\<close>. (The string of a magnitude
  of \<open>10^21\<close> or more is in exponent notation.)
\<close>

theorem formatNumber_negative:
  assumes "n < 0"
  shows "formatNumber n = CHR ''-'' # positive_toString (of_int (- n)) \<and>
    last (formatNumber n) \<noteq> CHR ''K'' \<and> last (formatNumber n) \<noteq> CHR ''M'' \<and>
    (- MAX_SAFE_INTEGER \<le> n \<longrightarrow> formatNumber n = CHR ''-'' # digits (nat (- n)))"
proof -
  have f: "formatNumber n = CHR ''-'' # positive_toString (of_int (- n))"
    using assms by (simp add: formatNumber_def Number_toString_def)
  have l: "last (formatNumber n) = last (positive_toString (of_int (- n)))"
    unfolding f using positive_toString_chars(2) by simp
  have s: "- MAX_SAFE_INTEGER \<le> n \<longrightarrow> formatNumber n = CHR ''-'' # digits (nat (- n))"
  proof
    assume "- MAX_SAFE_INTEGER \<le> n"
    then have "0 \<le> - n" "- n \<le> MAX_SAFE_INTEGER" using assms by simp_all
    then have "positive_toString (of_int (- n)) = digits (nat (- n))"
      by (rule positive_toString_safe)
    then show "formatNumber n = CHR ''-'' # digits (nat (- n))" by (simp only: f)
  qed
  show ?thesis
    using f s positive_toString_last [of "of_int (- n)"] unfolding l by (intro conjI)
qed

theorem formatNumber_negative_witness:
  "(-5::int) < 0 \<and> - MAX_SAFE_INTEGER \<le> -5 \<and> formatNumber (-5) = ''-5''"
proof -
  have h: "(-5::int) < 0" by simp
  have s: "- MAX_SAFE_INTEGER \<le> -5" by (simp add: MAX_SAFE_INTEGER_def)
  from formatNumber_negative [OF h] s have "formatNumber (-5) = CHR ''-'' # digits (nat (- (-5)))"
    by blast
  then have "formatNumber (-5) = ''-5''" by (simp add: digits_small digit_char_def)
  with h s show ?thesis by blast
qed

theorem formatNumber_negative_exponent_counterexample:
  "(- 1000000000000000000000 :: int) < 0
   \<and> formatNumber (- 1000000000000000000000) = ''-1e+21''
   \<and> CHR ''-'' # digits 1000000000000000000000 = ''-1000000000000000000000''"
  by (simp add: number_eval)

section \<open>The word wrap of the description\<close>

lemma ops_setters [simp]:
  "ops (set_fillStyle s cv) = ops cv"
  "ops (set_strokeStyle s cv) = ops cv"
  "ops (set_lineWidth lw cv) = ops cv"
  "ops (set_font f cv) = ops cv"
  "ops (set_textAlign a cv) = ops cv"
  "ops (set_textBaseline b cv) = ops cv"
  "ops (set_antialias a cv) = ops cv"
  "ops (assign_fillStyle v cv) = ops cv"
  "ops (assign_strokeStyle v cv) = ops cv"
  by (simp_all add: set_fillStyle_def set_strokeStyle_def set_lineWidth_def set_font_def
      set_textAlign_def set_textBaseline_def set_antialias_def assign_fillStyle_def
      assign_strokeStyle_def split: option.splits)

lemma fillText_eq: "fillText txt x y cv = cv\<lparr>ops := ops cv @ [FillText (state cv) txt x y]\<rparr>"
  by (simp add: fillText_def issue_def)

lemma spaced_Nil_iff: "spaced g = [] \<longleftrightarrow> g = []"
  by (cases g) (simp_all add: spaced_def)

lemma spaced_snoc: "spaced (g @ [word]) = spaced g @ word @ '' ''"
  by (simp add: spaced_def)

lemma spaced_single: "spaced [word] = word @ '' ''"
  by (simp add: spaced_def)

lemma line_ops_Nil: "line_ops st x y [] = []"
  by (simp add: line_ops_def)

lemma line_ops_Cons:
  "line_ops st x y (g # gs) = FillText st (spaced g) (of_int x) (of_int y) # line_ops st x (y + 30) gs"
proof -
  have "\<And>i. y + 30 * int (Suc i) = y + 30 + 30 * int i" by simp
  then show ?thesis
    unfolding line_ops_def by (simp add: map_upt_Suc del: upt_Suc)
qed

lemma wrap_loop_groups:
  assumes "wrap_loop w maxW x words (spaced g) y cv = (line', y', cv')"
  shows "(if line' \<noteq> [] then fillText line' (of_int x) (of_int y') cv' else cv') =
     cv\<lparr>ops := ops cv @ line_ops (state cv) x y
        (wrap_groups (measureText w (font (state cv))) maxW words g)\<rparr>"
  using assms
proof (induction words arbitrary: g y cv)
  case Nil
  then show ?case
    by (auto simp: spaced_Nil_iff fillText_eq line_ops_Cons line_ops_Nil)
next
  case (Cons word rest)
  let ?m = "measureText w (font (state cv))"
  show ?case
  proof (cases "?m (spaced (g @ [word])) > of_int maxW \<and> g \<noteq> []")
    case True
    define cv1 where "cv1 = fillText (spaced g) (of_int x) (of_int y) cv"
    have st: "state cv1 = state cv" by (simp add: cv1_def fillText_eq)
    from Cons.prems True
    have "wrap_loop w maxW x rest (spaced [word]) (y + 30) cv1 = (line', y', cv')"
      by (simp add: spaced_snoc spaced_single spaced_Nil_iff cv1_def Let_def)
    from Cons.IH [OF this]
    have "(if line' \<noteq> [] then fillText line' (of_int x) (of_int y') cv' else cv') =
      cv1\<lparr>ops := ops cv1 @ line_ops (state cv) x (y + 30) (wrap_groups ?m maxW rest [word])\<rparr>"
      by (simp only: st)
    also have "\<dots> = cv\<lparr>ops := ops cv @ line_ops (state cv) x y (g # wrap_groups ?m maxW rest [word])\<rparr>"
      by (simp add: cv1_def fillText_eq line_ops_Cons)
    finally show ?thesis using True by simp
  next
    case False
    from Cons.prems False
    have "wrap_loop w maxW x rest (spaced (g @ [word])) y cv = (line', y', cv')"
      by (auto simp: spaced_snoc spaced_Nil_iff Let_def)
    from Cons.IH [OF this] show ?thesis using False by auto
  qed
qed














section \<open>What each drawing step adds to the canvas\<close>

lemma state_setters [simp]:
  "state (set_fillStyle s cv) = (state cv)\<lparr>fillStyle := s\<rparr>"
  "state (set_strokeStyle s cv) = (state cv)\<lparr>strokeStyle := s\<rparr>"
  "state (set_lineWidth lw cv) = (state cv)\<lparr>lineWidth := lw\<rparr>"
  "state (set_font f cv) = (state cv)\<lparr>font := f\<rparr>"
  "state (set_textAlign a cv) = (state cv)\<lparr>textAlign := a\<rparr>"
  "state (set_textBaseline b cv) = (state cv)\<lparr>textBaseline := b\<rparr>"
  "state (set_antialias a cv) = (state cv)\<lparr>antialias := a\<rparr>"
  by (simp_all add: set_fillStyle_def set_strokeStyle_def set_lineWidth_def set_font_def
      set_textAlign_def set_textBaseline_def set_antialias_def)

lemma ops_issue [simp]: "ops (issue op cv) = ops cv @ [op]"
  by (simp add: issue_def)

lemma state_issue [simp]: "state (issue op cv) = state cv"
  by (simp add: issue_def)

lemma size_issue [simp]: "cv_width (issue op cv) = cv_width cv" "cv_height (issue op cv) = cv_height cv"
  by (simp_all add: issue_def)

lemma size_setters [simp]:
  "cv_width (set_fillStyle s cv) = cv_width cv" "cv_height (set_fillStyle s cv) = cv_height cv"
  "cv_width (set_strokeStyle s cv) = cv_width cv" "cv_height (set_strokeStyle s cv) = cv_height cv"
  "cv_width (set_lineWidth lw cv) = cv_width cv" "cv_height (set_lineWidth lw cv) = cv_height cv"
  "cv_width (set_font f cv) = cv_width cv" "cv_height (set_font f cv) = cv_height cv"
  "cv_width (set_textAlign a cv) = cv_width cv" "cv_height (set_textAlign a cv) = cv_height cv"
  "cv_width (set_textBaseline b cv) = cv_width cv" "cv_height (set_textBaseline b cv) = cv_height cv"
  "cv_width (set_antialias a cv) = cv_width cv" "cv_height (set_antialias a cv) = cv_height cv"
  "cv_width (assign_fillStyle v cv) = cv_width cv" "cv_height (assign_fillStyle v cv) = cv_height cv"
  "cv_width (assign_strokeStyle v cv) = cv_width cv" "cv_height (assign_strokeStyle v cv) = cv_height cv"
  by (simp_all add: set_fillStyle_def set_strokeStyle_def set_lineWidth_def set_font_def
      set_textAlign_def set_textBaseline_def set_antialias_def assign_fillStyle_def
      assign_strokeStyle_def split: option.splits)

lemma assign_gradient [simp]:
  "\<not> is_gradient (fillStyle (state cv)) \<Longrightarrow> \<not> is_gradient (fillStyle (state (assign_fillStyle v cv)))"
  "fillStyle (state (assign_strokeStyle v cv)) = fillStyle (state cv)"
  by (simp_all add: assign_fillStyle_def assign_strokeStyle_def split: option.splits)

lemma ops_save [simp]: "ops (save cv) = ops cv @ [Save]"
  by (simp add: save_def)

lemma ops_restore_save:
  "ops (restore cv) = (if stack cv = [] then ops cv else ops cv @ [Restore])"
  by (simp add: restore_def split: list.splits)

lemma size_save_restore [simp]:
  "cv_width (save cv) = cv_width cv" "cv_height (save cv) = cv_height cv"
  "cv_width (restore cv) = cv_width cv" "cv_height (restore cv) = cv_height cv"
  by (simp_all add: save_def restore_def split: list.splits)

lemmas prim_defs = fillRect_def drawImage_def fillText_def beginPath_def arc_def clip_def stroke_def

lemma texts_drawn_simps [simp]:
  "texts_drawn [] = []"
  "texts_drawn (xs @ ys) = texts_drawn xs @ texts_drawn ys"
  "texts_drawn (FillText st txt x y # xs) = (txt, x, y) # texts_drawn xs"
  "texts_drawn (FillRect st x y w h # xs) = texts_drawn xs"
  "texts_drawn (DrawImage st img x y w h # xs) = texts_drawn xs"
  "texts_drawn (Save # xs) = texts_drawn xs"
  "texts_drawn (Restore # xs) = texts_drawn xs"
  "texts_drawn (BeginPath # xs) = texts_drawn xs"
  "texts_drawn (Arc a b c d e # xs) = texts_drawn xs"
  "texts_drawn (Clip # xs) = texts_drawn xs"
  "texts_drawn (Stroke st # xs) = texts_drawn xs"
  by (simp_all add: texts_drawn_def List.map_filter_def)

lemma images_drawn_simps [simp]:
  "images_drawn [] = []"
  "images_drawn (xs @ ys) = images_drawn xs @ images_drawn ys"
  "images_drawn (FillText st txt x y # xs) = images_drawn xs"
  "images_drawn (FillRect st x y w h # xs) = images_drawn xs"
  "images_drawn (DrawImage st img x y w h # xs) = (img, x, y, w, h) # images_drawn xs"
  "images_drawn (Save # xs) = images_drawn xs"
  "images_drawn (Restore # xs) = images_drawn xs"
  "images_drawn (BeginPath # xs) = images_drawn xs"
  "images_drawn (Arc a b c d e # xs) = images_drawn xs"
  "images_drawn (Clip # xs) = images_drawn xs"
  "images_drawn (Stroke st # xs) = images_drawn xs"
  by (simp_all add: images_drawn_def List.map_filter_def)


lemma drawProfileInfo_other:
  "images_drawn (ops (drawProfileInfo pd options cv)) = images_drawn (ops cv)"
  "filter gradient_fill (ops (drawProfileInfo pd options cv)) = filter gradient_fill (ops cv)"
  "cv_width (drawProfileInfo pd options cv) = cv_width cv"
  "cv_height (drawProfileInfo pd options cv) = cv_height cv"
  by (simp_all add: drawProfileInfo_def Let_def prim_defs)


lemma drawStats_other:
  "images_drawn (ops (drawStats pd options cv)) = images_drawn (ops cv)"
  "filter gradient_fill (ops (drawStats pd options cv)) = filter gradient_fill (ops cv)"
  "cv_width (drawStats pd options cv) = cv_width cv"
  "cv_height (drawStats pd options cv) = cv_height cv"
  by (simp_all add: drawStats_def Let_def prim_defs)

section \<open>What a render paints\<close>

lemma gradient_line_ops [simp]: "filter gradient_fill (line_ops st x y gs) = []"
  by (simp add: line_ops_def filter_empty_conv)

lemma images_line_ops [simp]: "images_drawn (line_ops st x y gs) = []"
  by (simp add: line_ops_def images_drawn_def List.map_filter_def filter_empty_conv)

lemma drawDescription_eq:
  "drawDescription w descr options cv =
     (set_font (''20px '' @ template (fontFamily options)) (assign_fillStyle (textColor options) cv))
       \<lparr>ops := ops cv @ line_ops ((state (assign_fillStyle (textColor options) cv))
                                   \<lparr>font := ''20px '' @ template (fontFamily options)\<rparr>) 60
       (if truthy (showBanner options) then bannerBand options + 300 else 500)
       (wrap_groups (measureText w (''20px '' @ template (fontFamily options))) (width options - 120)
          (split_on CHR '' '' descr) [])\<rparr>"
proof -
  define cv2 where "cv2 = set_font (''20px '' @ template (fontFamily options))
     (assign_fillStyle (textColor options) cv)"
  define startY where "startY = (if truthy (showBanner options) then bannerBand options + 300 else 500)"
  have st: "state cv2 = (state (assign_fillStyle (textColor options) cv))
      \<lparr>font := ''20px '' @ template (fontFamily options)\<rparr>"
    by (simp add: cv2_def)
  have o: "ops cv2 = ops cv" by (simp add: cv2_def)
  obtain line' y' cv' where
    wl: "wrap_loop w (width options - 120) 60 (split_on CHR '' '' descr) (spaced []) startY cv2 = (line', y', cv')"
    by (metis prod_cases3)
  have sp: "spaced [] = []" by (simp add: spaced_def)
  have "drawDescription w descr options cv =
     (if line' \<noteq> [] then fillText line' (of_int 60) (of_int y') cv' else cv')"
    using wl unfolding drawDescription_def Let_def cv2_def [symmetric] startY_def [symmetric] sp
    by simp
  also have "\<dots> = cv2\<lparr>ops := ops cv2 @ line_ops (state cv2) 60 startY
      (wrap_groups (measureText w (font (state cv2))) (width options - 120) (split_on CHR '' '' descr) [])\<rparr>"
    by (rule wrap_loop_groups [OF wl])
  finally show ?thesis by (simp add: st o startY_def cv2_def)
qed

lemma drawDescription_other:
  "images_drawn (ops (drawDescription w descr options cv)) = images_drawn (ops cv)"
  "filter gradient_fill (ops (drawDescription w descr options cv)) = filter gradient_fill (ops cv)"
  "cv_width (drawDescription w descr options cv) = cv_width cv"
  "cv_height (drawDescription w descr options cv) = cv_height cv"
  by (simp_all add: drawDescription_eq)

lemma drawBackground_obs:
  "texts_drawn (ops (drawBackground options cv)) = texts_drawn (ops cv)"
  "images_drawn (ops (drawBackground options cv)) = images_drawn (ops cv)"
  "cv_width (drawBackground options cv) = cv_width cv"
  "cv_height (drawBackground options cv) = cv_height cv"
  by (simp_all add: drawBackground_def prim_defs)


lemma setupCanvas_obs:
  "ops (setupCanvas options cv) = ops cv"
  "fillStyle (state (setupCanvas options cv)) = fillStyle (state cv)"
  "cv_width (setupCanvas options cv) = cv_width cv"
  "cv_height (setupCanvas options cv) = cv_height cv"
  by (simp_all add: setupCanvas_def)

lemma drawBanner_failed:
  "loadImage w p = Inl e \<Longrightarrow>
     drawBanner w p options (cv, ws) = (cv, ws @ [(''Failed to load banner image:'', e)])"
  by (simp add: drawBanner_def)

lemma drawProfileImage_failed:
  "loadImage w p = Inl e \<Longrightarrow>
     drawProfileImage w p options (cv, ws) = (cv, ws @ [(''Failed to load profile image:'', e)])"
  by (simp add: drawProfileImage_def)

lemma drawBanner_obs:
  "texts_drawn (ops (fst (drawBanner w p options (cv, ws)))) = texts_drawn (ops cv)"
  "cv_width (fst (drawBanner w p options (cv, ws))) = cv_width cv"
  "cv_height (fst (drawBanner w p options (cv, ws))) = cv_height cv"
  by (simp_all add: drawBanner_def Let_def prim_defs split: sum.splits)

lemma drawProfileImage_obs:
  "texts_drawn (ops (fst (drawProfileImage w p options (cv, ws)))) = texts_drawn (ops cv)"
  "filter gradient_fill (ops (fst (drawProfileImage w p options (cv, ws)))) = filter gradient_fill (ops cv)"
  "cv_width (fst (drawProfileImage w p options (cv, ws))) = cv_width cv"
  "cv_height (fst (drawProfileImage w p options (cv, ws))) = cv_height cv"
  "images_drawn (ops (fst (drawProfileImage w p options (cv, ws)))) =
     images_drawn (ops cv) @
     (case loadImage w p of Inl e \<Rightarrow> []
      | Inr img \<Rightarrow> [(img, 60, of_int (if truthy (showBanner options) then bannerBand options - 60 else 60), 120, 120)])"
  by (simp_all add: drawProfileImage_def Let_def prim_defs save_def restore_def issue_def
      set_strokeStyle_def set_lineWidth_def assign_strokeStyle_def split: sum.splits option.splits)

lemma draw_steps_warnings:
  "drawBanner w p options (cv, ws) =
     (fst (drawBanner w p options (cv, [])), ws @ snd (drawBanner w p options (cv, [])))"
  "drawProfileImage w p options (cv, ws) =
     (fst (drawProfileImage w p options (cv, [])), ws @ snd (drawProfileImage w p options (cv, [])))"
  by (simp_all add: drawBanner_def drawProfileImage_def Let_def split: sum.splits)


lemma drawBanner_st:
  "texts_drawn (ops (fst (drawBanner w p options st))) = texts_drawn (ops (fst st))"
  "cv_width (fst (drawBanner w p options st)) = cv_width (fst st)"
  "cv_height (fst (drawBanner w p options st)) = cv_height (fst st)"
  by (cases st; simp add: drawBanner_obs)+

lemma drawProfileImage_st:
  "texts_drawn (ops (fst (drawProfileImage w p options st))) = texts_drawn (ops (fst st))"
  "filter gradient_fill (ops (fst (drawProfileImage w p options st))) = filter gradient_fill (ops (fst st))"
  "cv_width (fst (drawProfileImage w p options st)) = cv_width (fst st)"
  "cv_height (fst (drawProfileImage w p options st)) = cv_height (fst st)"
  "images_drawn (ops (fst (drawProfileImage w p options st))) =
     images_drawn (ops (fst st)) @
     (case loadImage w p of Inl e \<Rightarrow> []
      | Inr img \<Rightarrow> [(img, 60, of_int (if truthy (showBanner options) then bannerBand options - 60 else 60), 120, 120)])"
  by (cases st; simp add: drawProfileImage_obs)+

lemma paint_size:
  "cv_width (fst (paint w assets opts cv0)) = cv_width cv0"
  "cv_height (fst (paint w assets opts cv0)) = cv_height cv0"
  by (simp_all add: paint_def Let_def drawDescription_other drawStats_other drawProfileInfo_other
      drawProfileImage_st drawBanner_st drawBackground_obs setupCanvas_obs split: option.splits)



lemma generateCard_painted:
  "painted (generateCard w assets options outputPath0) =
     (case createCanvasError w (width (mergeOptions defaultOptions options))
             (height (mergeOptions defaultOptions options)) of
        Some e \<Rightarrow> None
      | None \<Rightarrow> Some (fst (paint w assets (mergeOptions defaultOptions options)
           (fresh_canvas (width (mergeOptions defaultOptions options))
              (height (mergeOptions defaultOptions options))))))"
  by (simp add: generateCard_def saveCard_def writeFile_def stat_size_def createCanvas_def Let_def
      failed_def split: option.splits sum.splits prod.splits)

section \<open>The outcomes of a render\<close>

lemma mergeOptions_fields:
  "width (mergeOptions defaultOptions options) = or_default 1200 (width_opt options)"
  "height (mergeOptions defaultOptions options) = or_default 630 (height_opt options)"
  "outputFormat (mergeOptions defaultOptions options) = spread (Some ''png'') (outputFormat_opt options)"
  "showBanner (mergeOptions defaultOptions options) = spread (Some True) (showBanner_opt options)"
  by (simp_all add: mergeOptions_def defaultOptions_def)


lemmas save_defs = saveCard_def writeFile_def stat_size_def toBuffer_def Let_def failed_def

lemma saveCard_success:
  assumes "success (result (saveCard w assets opts outputPath0 (cv, ws)))"
  shows "\<exists>bytes path fmt.
     encode w image_png cv = Inr bytes
   \<and> outputPath (result (saveCard w assets opts outputPath0 (cv, ws))) = Some path
   \<and> files_after (saveCard w assets opts outputPath0 (cv, ws)) = (files w)(path \<mapsto> bytes)
   \<and> error (result (saveCard w assets opts outputPath0 (cv, ws))) = None
   \<and> outputFormat opts = Some fmt
   \<and> cardInfo (result (saveCard w assets opts outputPath0 (cv, ws))) =
       Some \<lparr> info_width = width opts, info_height = height opts,
              fileSize = length bytes, format = toUpperCase fmt \<rparr>"
  using assms
  by (auto simp: save_defs split: option.splits sum.splits prod.splits split del: if_split)

lemma saveCard_painted: "painted (saveCard w assets opts outputPath0 (cv, ws)) = Some cv"
  by (simp add: save_defs split: option.splits sum.splits prod.splits split del: if_split)



lemma generateCard_cases:
  "(\<exists>e. createCanvasError w (width (mergeOptions defaultOptions options))
           (height (mergeOptions defaultOptions options)) = Some e
        \<and> generateCard w assets options outputPath0 = failed e (files w) [] None)
   \<or> (\<exists>cv ws. generateCard w assets options outputPath0
          = saveCard w assets (mergeOptions defaultOptions options) outputPath0 (cv, ws))"
  by (cases "paint w assets (mergeOptions defaultOptions options)
        (fresh_canvas (width (mergeOptions defaultOptions options))
           (height (mergeOptions defaultOptions options)))")
     (auto simp: generateCard_def createCanvas_def Let_def split: option.splits)

lemma generateCard_success:
  assumes "success (result (generateCard w assets options outputPath0))"
  shows "\<exists>cv bytes path fmt.
     painted (generateCard w assets options outputPath0) = Some cv
   \<and> encode w image_png cv = Inr bytes
   \<and> outputPath (result (generateCard w assets options outputPath0)) = Some path
   \<and> files_after (generateCard w assets options outputPath0) = (files w)(path \<mapsto> bytes)
   \<and> error (result (generateCard w assets options outputPath0)) = None
   \<and> outputFormat (mergeOptions defaultOptions options) = Some fmt
   \<and> cardInfo (result (generateCard w assets options outputPath0)) =
       Some \<lparr> info_width = width (mergeOptions defaultOptions options),
              info_height = height (mergeOptions defaultOptions options),
              fileSize = length bytes,
              format = toUpperCase fmt \<rparr>"
proof -
  from generateCard_cases [of w options assets outputPath0] assms obtain cv ws where
    g: "generateCard w assets options outputPath0
          = saveCard w assets (mergeOptions defaultOptions options) outputPath0 (cv, ws)"
    by (auto simp: failed_def)
  from saveCard_success [of w assets "mergeOptions defaultOptions options" outputPath0 cv ws]
    assms saveCard_painted [of w assets "mergeOptions defaultOptions options" outputPath0 cv ws]
  show ?thesis unfolding g by blast
qed




section \<open>A render depends on the assets through the canvas\<close>

lemma drawProfileImage_warns:
  "ws \<noteq> [] \<Longrightarrow> fst (drawProfileImage w p options (cv, ws)) = fst (drawProfileImage w p options (cv, []))"
  "ws \<noteq> [] \<Longrightarrow> snd (drawProfileImage w p options (cv, ws)) = ws @ snd (drawProfileImage w p options (cv, []))"
  by (simp_all add: drawProfileImage_def Let_def split: sum.splits)

lemma paint_banner_failed:
  assumes "bannerImagePath assets = Some p" and "loadImage w p = Inl e"
  shows "fst (paint w assets opts c0) = fst (paint w (assets\<lparr>bannerImagePath := None\<rparr>) opts c0)"
    and "snd (paint w assets opts c0) =
      (if truthy (showBanner opts) \<and> p \<noteq> [] then [(''Failed to load banner image:'', e)] else []) @
      snd (paint w (assets\<lparr>bannerImagePath := None\<rparr>) opts c0)"
  using assms
  by (simp_all add: paint_def Let_def drawBanner_failed drawProfileImage_warns split: option.splits)

lemma paint_avatar_failed:
  assumes "profileImagePath assets = Some p" and "loadImage w p = Inl e"
  shows "fst (paint w assets opts c0) = fst (paint w (assets\<lparr>profileImagePath := None\<rparr>) opts c0)"
    and "snd (paint w assets opts c0) =
      snd (paint w (assets\<lparr>profileImagePath := None\<rparr>) opts c0) @
      (if p \<noteq> [] then [(''Failed to load profile image:'', e)] else [])"
  using assms
  by (cases "bannerImagePath assets";
      simp add: paint_def Let_def drawProfileImage_def split: prod.splits)+

lemma saveCard_warnings:
  "result (saveCard w a opts q (cv, ws1)) = result (saveCard w a opts q (cv, ws2))"
  "painted (saveCard w a opts q (cv, ws1)) = painted (saveCard w a opts q (cv, ws2))"
  "files_after (saveCard w a opts q (cv, ws1)) = files_after (saveCard w a opts q (cv, ws2))"
  by (simp_all add: save_defs
      split: option.splits sum.splits prod.splits split del: if_split)

lemma saveCard_assets:
  assumes "username (profileData a1) = username (profileData a2)"
  shows "saveCard w a1 opts q st = saveCard w a2 opts q st"
proof -
  have "defaultOutputPath w a1 opts = defaultOutputPath w a2 opts"
    using assms by (simp add: defaultOutputPath_def)
  then show ?thesis unfolding saveCard_def by simp
qed

lemma saveCard_same:
  assumes "username (profileData a1) = username (profileData a2)"
  shows "result (saveCard w a1 opts q (cv, ws1)) = result (saveCard w a2 opts q (cv, ws2))"
    and "painted (saveCard w a1 opts q (cv, ws1)) = painted (saveCard w a2 opts q (cv, ws2))"
    and "files_after (saveCard w a1 opts q (cv, ws1)) = files_after (saveCard w a2 opts q (cv, ws2))"
  unfolding saveCard_assets [OF assms] by (rule saveCard_warnings)+

lemma generateCard_same_canvas:
  assumes "fst (paint w a1 (mergeOptions defaultOptions options)
       (fresh_canvas (width (mergeOptions defaultOptions options)) (height (mergeOptions defaultOptions options))))
     = fst (paint w a2 (mergeOptions defaultOptions options)
       (fresh_canvas (width (mergeOptions defaultOptions options)) (height (mergeOptions defaultOptions options))))"
    and u: "username (profileData a1) = username (profileData a2)"
  shows "result (generateCard w a1 options q) = result (generateCard w a2 options q)"
    and "painted (generateCard w a1 options q) = painted (generateCard w a2 options q)"
    and "files_after (generateCard w a1 options q) = files_after (generateCard w a2 options q)"
proof -
  let ?opts = "mergeOptions defaultOptions options"
  let ?c0 = "fresh_canvas (width ?opts) (height ?opts)"
  obtain cv ws1 where p1: "paint w a1 ?opts ?c0 = (cv, ws1)" by (cases "paint w a1 ?opts ?c0")
  with assms(1) obtain ws2 where p2: "paint w a2 ?opts ?c0 = (cv, ws2)"
    by (cases "paint w a2 ?opts ?c0") simp
  show "result (generateCard w a1 options q) = result (generateCard w a2 options q)"
    and "painted (generateCard w a1 options q) = painted (generateCard w a2 options q)"
    and "files_after (generateCard w a1 options q) = files_after (generateCard w a2 options q)"
    using saveCard_same [OF u, of w ?opts q cv ws1 ws2]
    by (simp_all add: generateCard_def createCanvas_def Let_def failed_def p1 p2 split: option.splits)
qed

lemma generateCard_warnings:
  "warnings (generateCard w assets options q) =
     (case createCanvasError w (width (mergeOptions defaultOptions options))
             (height (mergeOptions defaultOptions options)) of
        Some e \<Rightarrow> []
      | None \<Rightarrow> snd (paint w assets (mergeOptions defaultOptions options)
           (fresh_canvas (width (mergeOptions defaultOptions options))
              (height (mergeOptions defaultOptions options)))))"
  by (simp add: generateCard_def save_defs createCanvas_def
      split: option.splits sum.splits prod.splits split del: if_split)

section \<open>The layout without a banner\<close>




section \<open>The written file and its descriptor\<close>

text \<open>
  C1: a successful render writes to the output path the bytes that \<open>toBuffer\<close> gives with no
  argument, the PNG encoding of the painted canvas, whatever output format was requested, and
  the quality option is never read. The descriptor has the width and the height of the canvas,
  which are the requested ones or the defaults 1200 and 630, the size of the written bytes, and
  as format the requested format in upper case (a success has a format that is not
  \<open>undefined\<close>). So the descriptor of a render with the format
  jpeg says JPEG of a file that holds a PNG encoding.
\<close>

theorem generateCard_writes_png:
  assumes "success (result (generateCard w assets options outputPath0))"
  shows "\<exists>cv bytes path info.
     painted (generateCard w assets options outputPath0) = Some cv
   \<and> cv_width cv = or_default 1200 (width_opt options)
   \<and> cv_height cv = or_default 630 (height_opt options)
   \<and> toBuffer w cv None = Inr bytes
   \<and> encode w image_png cv = Inr bytes
   \<and> outputPath (result (generateCard w assets options outputPath0)) = Some path
   \<and> files_after (generateCard w assets options outputPath0) path = Some bytes
   \<and> cardInfo (result (generateCard w assets options outputPath0)) = Some info
   \<and> info_width info = cv_width cv
   \<and> info_height info = cv_height cv
   \<and> fileSize info = length bytes
   \<and> Some (format info) = map_option toUpperCase (spread (Some ''png'') (outputFormat_opt options))"
proof -
  let ?out = "generateCard w assets options outputPath0"
  let ?opts = "mergeOptions defaultOptions options"
  from generateCard_success [OF assms] obtain cv bytes path fmt where
    cv: "painted ?out = Some cv"
    and enc: "encode w image_png cv = Inr bytes"
    and path: "outputPath (result ?out) = Some path"
    and fls: "files_after ?out = (files w)(path \<mapsto> bytes)"
    and fmt: "outputFormat ?opts = Some fmt"
    and info: "cardInfo (result ?out) =
       Some \<lparr> info_width = width ?opts, info_height = height ?opts, fileSize = length bytes,
              format = toUpperCase fmt \<rparr>"
    by blast
  from cv have "cv = fst (paint w assets ?opts (fresh_canvas (width ?opts) (height ?opts)))"
    by (simp add: generateCard_painted split: option.splits)
  then have size: "cv_width cv = width ?opts" "cv_height cv = height ?opts"
    by (simp_all add: paint_size fresh_canvas_def)
  have "toBuffer w cv None = Inr bytes" using enc by (simp add: toBuffer_def)
  moreover from fmt have "spread (Some ''png'') (outputFormat_opt options) = Some fmt"
    by (simp add: mergeOptions_fields)
  ultimately show ?thesis using cv enc path fls info size
    by (simp add: mergeOptions_fields)
qed

theorem generateCard_writes_png_witness:
  "success (result (generateCard sample_world ada_assets jpeg_options (Some ''card.jpg'')))
   \<and> outputFormat_opt jpeg_options = Value ''jpeg''
   \<and> (\<exists>cv bytes info.
        painted (generateCard sample_world ada_assets jpeg_options (Some ''card.jpg'')) = Some cv
      \<and> encode sample_world image_png cv = Inr bytes
      \<and> files_after (generateCard sample_world ada_assets jpeg_options (Some ''card.jpg'')) ''card.jpg''
           = Some bytes
      \<and> cardInfo (result (generateCard sample_world ada_assets jpeg_options (Some ''card.jpg''))) = Some info
      \<and> format info = ''JPEG'')"
proof -
  let ?out = "generateCard sample_world ada_assets jpeg_options (Some ''card.jpg'')"
  have h: "success (result ?out)" by code_simp
  have p: "outputPath (result ?out) = Some ''card.jpg''" by code_simp
  have f: "map_option toUpperCase (spread (Some ''png'') (outputFormat_opt jpeg_options)) = Some ''JPEG''"
    by code_simp
  have j: "outputFormat_opt jpeg_options = Value ''jpeg''" by code_simp
  from generateCard_writes_png [OF h] obtain cv bytes path info where
    r: "painted ?out = Some cv" "encode sample_world image_png cv = Inr bytes"
    "outputPath (result ?out) = Some path" "files_after ?out path = Some bytes"
    "cardInfo (result ?out) = Some info"
    and u: "Some (format info) = map_option toUpperCase (spread (Some ''png'') (outputFormat_opt jpeg_options))"
    by blast
  from u have "Some (format info) = Some ''JPEG''" by (simp only: f)
  then have "format info = ''JPEG''" by simp
  with p r have "painted ?out = Some cv \<and> encode sample_world image_png cv = Inr bytes
      \<and> files_after ?out ''card.jpg'' = Some bytes \<and> cardInfo (result ?out) = Some info
      \<and> format info = ''JPEG''"
    by simp
  with h j show ?thesis by blast
qed

section \<open>Fatal errors\<close>




section \<open>Bitmaps that fail to load\<close>

text \<open>
  C7: when the banner file fails to load, the render has the result, the canvas and the
  written files of the same render with no banner path, and, where the banner was to be drawn,
  a warning with the error is logged; so the failure never makes the result a failure and the
  avatar, the identity text, the statistics and the description are drawn as they are without
  a banner. The same holds for the avatar file, with the render that has no avatar path.
\<close>

theorem load_failure_isolated:
  "(bannerImagePath assets = Some p \<and> loadImage w p = Inl e \<longrightarrow>
      result (generateCard w assets options q)
        = result (generateCard w (assets\<lparr>bannerImagePath := None\<rparr>) options q)
    \<and> painted (generateCard w assets options q)
        = painted (generateCard w (assets\<lparr>bannerImagePath := None\<rparr>) options q)
    \<and> files_after (generateCard w assets options q)
        = files_after (generateCard w (assets\<lparr>bannerImagePath := None\<rparr>) options q)
    \<and> (painted (generateCard w assets options q) \<noteq> None
         \<and> truthy (showBanner (mergeOptions defaultOptions options)) \<and> p \<noteq> []
        \<longrightarrow> (''Failed to load banner image:'', e) \<in> set (warnings (generateCard w assets options q))))
   \<and> (profileImagePath assets = Some p' \<and> loadImage w p' = Inl e' \<longrightarrow>
      result (generateCard w assets options q)
        = result (generateCard w (assets\<lparr>profileImagePath := None\<rparr>) options q)
    \<and> painted (generateCard w assets options q)
        = painted (generateCard w (assets\<lparr>profileImagePath := None\<rparr>) options q)
    \<and> files_after (generateCard w assets options q)
        = files_after (generateCard w (assets\<lparr>profileImagePath := None\<rparr>) options q)
    \<and> (painted (generateCard w assets options q) \<noteq> None \<and> p' \<noteq> []
        \<longrightarrow> (''Failed to load profile image:'', e') \<in> set (warnings (generateCard w assets options q))))"
proof (intro conjI impI)
  let ?opts = "mergeOptions defaultOptions options"
  let ?c0 = "fresh_canvas (width ?opts) (height ?opts)"
  {
    assume a: "bannerImagePath assets = Some p \<and> loadImage w p = Inl e"
    then have f: "fst (paint w assets ?opts ?c0) = fst (paint w (assets\<lparr>bannerImagePath := None\<rparr>) ?opts ?c0)"
      using paint_banner_failed(1) by blast
    have u: "username (profileData assets) = username (profileData (assets\<lparr>bannerImagePath := None\<rparr>))"
      by simp
    show "result (generateCard w assets options q)
        = result (generateCard w (assets\<lparr>bannerImagePath := None\<rparr>) options q)"
      by (rule generateCard_same_canvas(1) [OF f u])
    show "painted (generateCard w assets options q)
        = painted (generateCard w (assets\<lparr>bannerImagePath := None\<rparr>) options q)"
      by (rule generateCard_same_canvas(2) [OF f u])
    show "files_after (generateCard w assets options q)
        = files_after (generateCard w (assets\<lparr>bannerImagePath := None\<rparr>) options q)"
      by (rule generateCard_same_canvas(3) [OF f u])
    assume b: "painted (generateCard w assets options q) \<noteq> None \<and> truthy (showBanner ?opts) \<and> p \<noteq> []"
    then have "createCanvasError w (width ?opts) (height ?opts) = None"
      by (simp add: generateCard_painted split: option.splits)
    then have "warnings (generateCard w assets options q) = snd (paint w assets ?opts ?c0)"
      by (simp add: generateCard_warnings)
    also have "\<dots> = [(''Failed to load banner image:'', e)] @
        snd (paint w (assets\<lparr>bannerImagePath := None\<rparr>) ?opts ?c0)"
      using paint_banner_failed(2) [of assets p w e ?opts ?c0] a b by simp
    finally show "(''Failed to load banner image:'', e) \<in> set (warnings (generateCard w assets options q))"
      by simp
  }
  {
    assume a: "profileImagePath assets = Some p' \<and> loadImage w p' = Inl e'"
    then have f: "fst (paint w assets ?opts ?c0) = fst (paint w (assets\<lparr>profileImagePath := None\<rparr>) ?opts ?c0)"
      using paint_avatar_failed(1) by blast
    have u: "username (profileData assets) = username (profileData (assets\<lparr>profileImagePath := None\<rparr>))"
      by simp
    show "result (generateCard w assets options q)
        = result (generateCard w (assets\<lparr>profileImagePath := None\<rparr>) options q)"
      by (rule generateCard_same_canvas(1) [OF f u])
    show "painted (generateCard w assets options q)
        = painted (generateCard w (assets\<lparr>profileImagePath := None\<rparr>) options q)"
      by (rule generateCard_same_canvas(2) [OF f u])
    show "files_after (generateCard w assets options q)
        = files_after (generateCard w (assets\<lparr>profileImagePath := None\<rparr>) options q)"
      by (rule generateCard_same_canvas(3) [OF f u])
    assume b: "painted (generateCard w assets options q) \<noteq> None \<and> p' \<noteq> []"
    then have "createCanvasError w (width ?opts) (height ?opts) = None"
      by (simp add: generateCard_painted split: option.splits)
    then have "warnings (generateCard w assets options q) = snd (paint w assets ?opts ?c0)"
      by (simp add: generateCard_warnings)
    also have "\<dots> = snd (paint w (assets\<lparr>profileImagePath := None\<rparr>) ?opts ?c0) @
        [(''Failed to load profile image:'', e')]"
      using paint_avatar_failed(2) [of assets p' w e' ?opts ?c0] a b by simp
    finally show "(''Failed to load profile image:'', e') \<in> set (warnings (generateCard w assets options q))"
      by simp
  }
qed

theorem load_failure_isolated_witness:
  "bannerImagePath broken_banner_assets = Some ''broken.jpg''
   \<and> loadImage avatar_world ''broken.jpg'' = Inl (Error ''Error'' ''Unsupported image type'')
   \<and> success (result (generateCard avatar_world broken_banner_assets no_options (Some ''card.png'')))
   \<and> warnings (generateCard avatar_world broken_banner_assets no_options (Some ''card.png''))
       = [(''Failed to load banner image:'', Error ''Error'' ''Unsupported image type'')]
   \<and> images_drawn (painted_ops (generateCard avatar_world broken_banner_assets no_options (Some ''card.png'')))
       = [(\<lparr>img_width = 1500, img_height = 500, img_data = ''bitmap''\<rparr>, 60, 192, 120, 120)]
   \<and> painted (generateCard avatar_world broken_banner_assets no_options (Some ''card.png''))
       = painted (generateCard avatar_world (broken_banner_assets\<lparr>bannerImagePath := None\<rparr>)
           no_options (Some ''card.png''))"
proof -
  have b: "bannerImagePath broken_banner_assets = Some ''broken.jpg''"
    by (simp add: broken_banner_assets_def)
  have l: "loadImage avatar_world ''broken.jpg'' = Inl (Error ''Error'' ''Unsupported image type'')"
    by code_simp
  have s: "success (result (generateCard avatar_world broken_banner_assets no_options (Some ''card.png'')))"
    by code_simp
  have ws: "warnings (generateCard avatar_world broken_banner_assets no_options (Some ''card.png''))
       = [(''Failed to load banner image:'', Error ''Error'' ''Unsupported image type'')]"
    by code_simp
  have im: "images_drawn (painted_ops (generateCard avatar_world broken_banner_assets no_options (Some ''card.png'')))
       = [(\<lparr>img_width = 1500, img_height = 500, img_data = ''bitmap''\<rparr>, 60, 192, 120, 120)]"
    by code_simp
  from load_failure_isolated [of broken_banner_assets "''broken.jpg''" avatar_world
      "Error ''Error'' ''Unsupported image type''" no_options "Some ''card.png''"] b l
  have "painted (generateCard avatar_world broken_banner_assets no_options (Some ''card.png''))
       = painted (generateCard avatar_world (broken_banner_assets\<lparr>bannerImagePath := None\<rparr>)
           no_options (Some ''card.png''))"
    by blast
  with b l s ws im show ?thesis by blast
qed

end
